theory Spec2Isabelle
  imports Complex_Main "HOL-Library.AList" "HOL-Library.List_Lexorder" "HOL-Library.Char_ord"
begin

section \<open>The host language: strings, values, objects, sorting\<close>

text \<open>
  The dashboard is one JavaScript file, \<^verbatim>\<open>static/script.js\<close>. Its strings are modelled as
  \<^typ>\<open>string\<close>, a list of 8-bit characters: a string of the program is read as its UTF-8
  bytes, which is the program's own string for ASCII data. Its numbers are IEEE doubles:
  a number is modelled by the rational it stands for, and where a property depends on
  what an operation on doubles yields (the sums of the day-of-week chart) the rounding
  of the exact result is written out.
\<close>

subsection \<open>Strings\<close>

fun join :: "string \<Rightarrow> string list \<Rightarrow> string" where
  "join sep [] = []"
| "join sep [x] = x"
| "join sep (x # y # ys) = x @ sep @ join sep (y # ys)"

text \<open>\<^verbatim>\<open>s.split(d)\<close> for a one-character separator: never an empty array.\<close>

fun split_on :: "char \<Rightarrow> string \<Rightarrow> string list" where
  "split_on d [] = [[]]"
| "split_on d (c # cs) =
     (if c = d then [] # split_on d cs
      else (case split_on d cs of [] \<Rightarrow> [[c]] | w # ws \<Rightarrow> (c # w) # ws))"

text \<open>White space, as far as ASCII has it.\<close>

definition is_space :: "char \<Rightarrow> bool" where
  "is_space c \<longleftrightarrow> c \<in> set [CHR '' '', CHR 0x09, CHR 0x0A, CHR 0x0B, CHR 0x0C, CHR 0x0D]"

definition is_digit :: "char \<Rightarrow> bool" where
  "is_digit c \<longleftrightarrow> c \<in> set ''0123456789''"

definition digit_val :: "char \<Rightarrow> nat" where
  "digit_val c = of_char c - 48"

definition nat_of_digits :: "string \<Rightarrow> nat" where
  "nat_of_digits s = foldl (\<lambda>n c. 10 * n + digit_val c) 0 s"

definition digit_char :: "nat \<Rightarrow> char" where
  "digit_char d = ''0123456789'' ! (d mod 10)"

fun show_nat :: "nat \<Rightarrow> string" where
  "show_nat n = (if n < 10 then [digit_char n] else show_nat (n div 10) @ [digit_char n])"

declare show_nat.simps [simp del]

definition show_int :: "int \<Rightarrow> string" where
  "show_int i = (if i < 0 then CHR ''-'' # show_nat (nat (- i)) else show_nat (nat i))"

subsection \<open>\<^verbatim>\<open>encodeURIComponent\<close>\<close>

text \<open>
  Every byte outside the unreserved set \<^verbatim>\<open>A-Z a-z 0-9 - _ . ! ~ * ' ( )\<close> becomes
  \<^verbatim>\<open>%XX\<close> with upper-case hexadecimal digits. (On a string that is not well-formed
  UTF-16 the built-in throws; such strings have no UTF-8 bytes and are outside this
  model.)
\<close>

definition unreserved :: "char \<Rightarrow> bool" where
  "unreserved c \<longleftrightarrow>
     c \<in> set (''ABCDEFGHIJKLMNOPQRSTUVWXYZabcdefghijklmnopqrstuvwxyz0123456789-_.!~*()''
               @ [CHR 0x27])"

definition hex_digit :: "nat \<Rightarrow> char" where
  "hex_digit n = ''0123456789ABCDEF'' ! (n mod 16)"

definition hex_val :: "char \<Rightarrow> nat" where
  "hex_val c = (if is_digit c then of_char c - 48 else of_char c - 55)"

definition encode_char :: "char \<Rightarrow> string" where
  "encode_char c =
     (if unreserved c then [c]
      else [CHR ''%'', hex_digit (of_char c div 16), hex_digit (of_char c)])"

definition encodeURIComponent :: "string \<Rightarrow> string" where
  "encodeURIComponent s = concat (map encode_char s)"

text \<open>The inverse reading of a percent-encoded string, used to state what a query holds.\<close>

fun percent_decode :: "string \<Rightarrow> string" where
  "percent_decode [] = []"
| "percent_decode (c # cs) =
     (if c = CHR ''%'' then
        (case cs of
           a # b # rest \<Rightarrow> char_of (16 * hex_val a + hex_val b) # percent_decode rest
         | _ \<Rightarrow> c # cs)
      else c # percent_decode cs)"

subsection \<open>Values and objects\<close>

text \<open>A value that can stand in a parameter object of \<^verbatim>\<open>buildQuery\<close>.\<close>

datatype jsval = JUndefined | JNull | JStr string | JInt int | JNaN

fun ToString :: "jsval \<Rightarrow> string" where
  "ToString JUndefined = ''undefined''"
| "ToString JNull = ''null''"
| "ToString (JStr s) = s"
| "ToString (JInt i) = show_int i"
| "ToString JNaN = ''NaN''"

text \<open>
  A field of a record that came from JSON: the property is absent (\<^verbatim>\<open>undefined\<close> when
  read), \<^verbatim>\<open>null\<close>, or holds a value.
\<close>

datatype 'a field = Absent | Null | Val 'a

text \<open>\<^verbatim>\<open>if (x)\<close> on a string field, \<^verbatim>\<open>x || d\<close> on a string and on a number field.\<close>

fun truthy :: "string field \<Rightarrow> bool" where
  "truthy (Val s) = (s \<noteq> [])"
| "truthy _ = False"

fun or_str :: "string field \<Rightarrow> string \<Rightarrow> string" where
  "or_str (Val s) d = (if s = [] then d else s)"
| "or_str _ d = d"

fun or_num :: "rat field \<Rightarrow> rat \<Rightarrow> rat" where
  "or_num (Val q) d = (if q = 0 then d else q)"
| "or_num _ d = d"

text \<open>
  An object used as a dictionary is the list of its own properties in insertion order,
  keys distinct. Writing a property keeps the place of an existing key and appends a new
  one (\<^const>\<open>AList.update\<close>). \<^verbatim>\<open>Object.keys\<close>, \<^verbatim>\<open>Object.values\<close> and
  \<^verbatim>\<open>Object.entries\<close> enumerate the array-index keys first, in ascending numeric order,
  then the other keys in insertion order.
\<close>

type_synonym 'v obj = "(string \<times> 'v) list"

fun canonical_digits :: "string \<Rightarrow> bool" where
  "canonical_digits [] = False"
| "canonical_digits [c] = is_digit c"
| "canonical_digits (c # cs) = (is_digit c \<and> c \<noteq> CHR ''0'' \<and> list_all is_digit cs)"

definition is_array_index :: "string \<Rightarrow> bool" where
  "is_array_index k \<longleftrightarrow> canonical_digits k \<and> nat_of_digits k < 4294967295"

definition entries :: "'v obj \<Rightarrow> (string \<times> 'v) list" where
  "entries ob =
     sort_key (\<lambda>p. nat_of_digits (fst p)) (filter (\<lambda>p. is_array_index (fst p)) ob)
     @ filter (\<lambda>p. \<not> is_array_index (fst p)) ob"

definition keys :: "'v obj \<Rightarrow> string list" where
  "keys ob = map fst (entries ob)"

definition vals :: "'v obj \<Rightarrow> 'v list" where
  "vals ob = map snd (entries ob)"

text \<open>
  The names every object inherits from \<^verbatim>\<open>Object.prototype\<close>. Reading \<^verbatim>\<open>ob[k]\<close> for
  such a name on an object that has no own property \<open>k\<close> yields the inherited member, a
  function or an object, which is truthy and is neither an array, a set nor a number.
\<close>

definition inherited :: "string \<Rightarrow> bool" where
  "inherited k \<longleftrightarrow>
     k \<in> set [''constructor'', ''__proto__'', ''toString'', ''toLocaleString'', ''valueOf'',
              ''hasOwnProperty'', ''isPrototypeOf'', ''propertyIsEnumerable'',
              ''__defineGetter__'', ''__defineSetter__'', ''__lookupGetter__'',
              ''__lookupSetter__'']"

text \<open>
  \<^verbatim>\<open>Array.prototype.sort\<close> with a comparator is stable; an element \<open>x\<close> stays before \<open>y\<close>
  unless \<open>cmp x y > 0\<close>. For a consistent comparator the result is determined, and
  insertion from the right computes it.
\<close>

fun insert_by :: "('a \<Rightarrow> 'a \<Rightarrow> 'n::linordered_idom) \<Rightarrow> 'a \<Rightarrow> 'a list \<Rightarrow> 'a list" where
  "insert_by cmp x [] = [x]"
| "insert_by cmp x (y # ys) =
     (if cmp x y \<le> 0 then x # y # ys else y # insert_by cmp x ys)"

definition sort_by :: "('a \<Rightarrow> 'a \<Rightarrow> 'n::linordered_idom) \<Rightarrow> 'a list \<Rightarrow> 'a list" where
  "sort_by cmp xs = foldr (insert_by cmp) xs []"

section \<open>Filter state and query strings\<close>

text \<open>
  \<^verbatim>\<open>
  function buildQuery(params) {
    const query = Object.keys(params)
      .filter(k => params[k] !== undefined && params[k] !== null && params[k] !== "")
      .map(k => `${encodeURIComponent(k)}=${encodeURIComponent(params[k])}`)
      .join("&");
    return query ? `?${query}` : "";
  }
  \<close>
\<close>

definition get_param :: "jsval obj \<Rightarrow> string \<Rightarrow> jsval" where
  "get_param params k = (case map_of params k of None \<Rightarrow> JUndefined | Some v \<Rightarrow> v)"

definition present :: "jsval \<Rightarrow> bool" where
  "present v \<longleftrightarrow> v \<noteq> JUndefined \<and> v \<noteq> JNull \<and> v \<noteq> JStr []"

definition buildQuery :: "jsval obj \<Rightarrow> string" where
  "buildQuery params =
     (let query =
        join ''&''
          (map (\<lambda>k. encodeURIComponent k @ ''='' @ encodeURIComponent (ToString (get_param params k)))
             (filter (\<lambda>k. present (get_param params k)) (keys params)))
      in if query \<noteq> [] then ''?'' @ query else [])"

text \<open>The keys a query string carries: the text before \<^verbatim>\<open>=\<close> in each \<^verbatim>\<open>&\<close>-separated part.\<close>

fun query_keys :: "string \<Rightarrow> string list" where
  "query_keys [] = []"
| "query_keys (c # cs) =
     map (\<lambda>part. percent_decode (takeWhile (\<lambda>x. x \<noteq> CHR ''='') part)) (split_on CHR ''&'' cs)"

text \<open>
  The filter panel, as \<^verbatim>\<open>getFilters\<close> and \<^verbatim>\<open>clearFilters\<close> see it: the two date inputs,
  the values of the selected options of the country list, and the segment selector.
  \<^verbatim>\<open>
  function getFilters() {
    const start = document.getElementById('startDate').value;
    const end = document.getElementById('endDate').value;
    const countrySelect = document.getElementById('countrySelect');
    const selectedCountries = Array.from(countrySelect.selectedOptions).map(o => o.value).filter(v => v);
    return {
      start_date: start || null,
      end_date: end || null,
      countries: selectedCountries.length ? selectedCountries.join(',') : null
    };
  }
  \<close>
\<close>

record filter_panel =
  startDate :: string
  endDate :: string
  countrySelect :: "string list"
  segmentFilter :: string

definition or_null :: "string \<Rightarrow> jsval" where
  "or_null s = (if s \<noteq> [] then JStr s else JNull)"

definition getFilters :: "filter_panel \<Rightarrow> jsval obj" where
  "getFilters panel =
     (let start = startDate panel;
          end' = endDate panel;
          selectedCountries = filter (\<lambda>v. v \<noteq> []) (countrySelect panel)
      in [(''start_date'', or_null start),
          (''end_date'', or_null end'),
          (''countries'', if length selectedCountries \<noteq> 0 then JStr (join '','' selectedCountries) else JNull)])"

section \<open>Client-side aggregation over the transaction list\<close>

text \<open>
  A transaction as the backend sends it. The text fields are strings, the two amounts
  are numbers; each may be absent or \<^verbatim>\<open>null\<close>. The field \<open>t_id\<close> is the record's
  \<^verbatim>\<open>_id\<close>. Revenue is derived, never stored: \<^verbatim>\<open>(t.Quantity || 0) * (t.Price || 0)\<close>;
  \<open>revenue\<close> is the exact product, of which the program has the rounding.
\<close>

record transaction =
  t_id :: "string field"
  Invoice :: "string field"
  InvoiceDate :: "string field"
  StockCode :: "string field"
  Description :: "string field"
  Quantity :: "rat field"
  Price :: "rat field"
  CustomerID :: "string field"
  Country :: "string field"

definition revenue :: "transaction \<Rightarrow> rat" where
  "revenue t = or_num (Quantity t) 0 * or_num (Price t) 0"

text \<open>
  What a chart function can fail with. \<open>TypeError\<close> and \<open>RangeError\<close> are thrown by the
  host; inside a chart function the surrounding \<^verbatim>\<open>try\<close>/\<^verbatim>\<open>catch\<close> logs them and the chart
  is not drawn. \<open>NotANumber\<close> marks a dictionary entry that has stopped being a number
  (see \<open>add_category\<close>).
\<close>

datatype failure = TypeError | RangeError | NotANumber

text \<open>\<^verbatim>\<open>xs.forEach(f)\<close> where the body may throw: the first failure ends the loop.\<close>

fun forEach :: "('s \<Rightarrow> 'a \<Rightarrow> failure + 's) \<Rightarrow> 's \<Rightarrow> 'a list \<Rightarrow> failure + 's" where
  "forEach f s [] = Inr s"
| "forEach f s (x # xs) = (case f s x of Inl e \<Rightarrow> Inl e | Inr s' \<Rightarrow> forEach f s' xs)"


subsection \<open>Revenue by day of week\<close>

text \<open>
  \<^verbatim>\<open>
  const dayRevenue = Array(7).fill(0);
  transactions.forEach(t => {
    if (t.InvoiceDate) {
      const day = new Date(t.InvoiceDate).getDay();
      dayRevenue[day] += (t.Quantity || 0) * (t.Price || 0);
    }
  });
  \<close>
  Parsing a date and reading its day in the browser's time zone belong to the host:
  \<open>getDay\<close> is a parameter, \<open>None\<close> where the string is no date (\<^verbatim>\<open>getDay()\<close> is then
  \<^verbatim>\<open>NaN\<close>, and the assignment sets a property named \<^verbatim>\<open>NaN\<close> beside the seven slots,
  which stay as they are).

  The product and the sum are operations on doubles: each yields the exact result
  rounded to a double. The rounding \<open>rnd\<close> is a parameter as well; a field of a
  transaction holds the value of its double. (A result beyond the largest double is
  \<^verbatim>\<open>Infinity\<close> in the program and outside this model.)
\<close>

datatype weekday = Sunday | Monday | Tuesday | Wednesday | Thursday | Friday | Saturday

fun day_index :: "weekday \<Rightarrow> nat" where
  "day_index Sunday = 0"
| "day_index Monday = 1"
| "day_index Tuesday = 2"
| "day_index Wednesday = 3"
| "day_index Thursday = 4"
| "day_index Friday = 5"
| "day_index Saturday = 6"

definition add_day ::
  "(rat \<Rightarrow> rat) \<Rightarrow> (string \<Rightarrow> weekday option) \<Rightarrow> rat list \<Rightarrow> transaction \<Rightarrow> rat list" where
  "add_day rnd getDay dayRevenue t =
     (case InvoiceDate t of
        Val d \<Rightarrow>
          (if d \<noteq> [] then
             (case getDay d of
                Some day \<Rightarrow>
                  dayRevenue[day_index day := rnd (dayRevenue ! day_index day + rnd (revenue t))]
              | None \<Rightarrow> dayRevenue)
           else dayRevenue)
      | _ \<Rightarrow> dayRevenue)"

definition fetchDailyPattern ::
  "(rat \<Rightarrow> rat) \<Rightarrow> (string \<Rightarrow> weekday option) \<Rightarrow> transaction list \<Rightarrow> rat list" where
  "fetchDailyPattern rnd getDay transactions =
     foldl (add_day rnd getDay) (replicate 7 0) transactions"

text \<open>The transactions that reach a bucket: a non-empty date that the host can parse.\<close>

definition dated :: "(string \<Rightarrow> weekday option) \<Rightarrow> transaction \<Rightarrow> bool" where
  "dated getDay t =
     (case InvoiceDate t of Val d \<Rightarrow> d \<noteq> [] \<and> getDay d \<noteq> None | _ \<Rightarrow> False)"

text \<open>A host for the examples: two dates of December 2010, nothing else parses.\<close>

definition sample_getDay :: "string \<Rightarrow> weekday option" where
  "sample_getDay d =
     (if d = ''2010-12-01T08:26:00'' then Some Wednesday
      else if d = ''2010-12-05T10:03:00'' then Some Sunday
      else None)"

text \<open>
  The total revenue of a list, as a loop over the list adds it up in doubles; its exact
  value is \<open>sum_list (map revenue ts)\<close>.
\<close>

definition double_total :: "(rat \<Rightarrow> rat) \<Rightarrow> transaction list \<Rightarrow> rat" where
  "double_total rnd ts = foldl (\<lambda>total t. rnd (total + rnd (revenue t))) 0 ts"

text \<open>
  Rounding is exact on the integers below \<open>2^53\<close>: what the theorem on the buckets
  asks of \<open>rnd\<close>, and what holds of the rounding of doubles.
\<close>

definition exact_on_integers :: "(rat \<Rightarrow> rat) \<Rightarrow> bool" where
  "exact_on_integers rnd = (\<forall>k::int. \<bar>k\<bar> < 2 ^ 53 \<longrightarrow> rnd (of_int k) = of_int k)"

text \<open>
  The rounding of the examples: to 53 significant bits, ties to even, in units down to
  \<open>2^-1074\<close>. \<open>normalise\<close> scales the magnitude \<open>m\<close> into \<open>2^52 \<le> m < 2^53\<close>, keeping
  \<open>m * u\<close>, in at most \<open>n\<close> steps.
\<close>

fun normalise :: "nat \<Rightarrow> rat \<Rightarrow> rat \<Rightarrow> rat \<times> rat" where
  "normalise n m u =
     (if n = 0 then (m, u)
      else if m \<ge> 2 ^ 53 then normalise (n - 1) (m / 2) (u * 2)
      else if m < 2 ^ 52 then normalise (n - 1) (m * 2) (u / 2)
      else (m, u))"

declare normalise.simps [simp del]

definition round_even :: "rat \<Rightarrow> int" where
  "round_even m =
     (let f = \<lfloor>m\<rfloor>; r = m - of_int f
      in if r < 1 / 2 then f else if r > 1 / 2 then f + 1 else if even f then f else f + 1)"

definition round53 :: "rat \<Rightarrow> rat" where
  "round53 x =
     (if x = 0 then 0
      else (case normalise 1074 \<bar>x\<bar> 1 of (m, u) \<Rightarrow> sgn x * of_int (round_even m) * u))"

subsection \<open>Revenue by category\<close>









subsection \<open>Cohort sizes\<close>

text \<open>
  \<^verbatim>\<open>
  const cohorts = {};
  transactions.forEach(t => {
    if (t.InvoiceDate && t.CustomerID) {
      const month = t.InvoiceDate.substring(0, 7);
      if (!cohorts[month]) cohorts[month] = new Set();
      cohorts[month].add(t.CustomerID);
    }
  });
  const months = Object.keys(cohorts).sort().slice(0, 12);
  const sizes = months.map(m => cohorts[m].size);
  \<close>
  A \<^verbatim>\<open>Set\<close> is the list of its members in insertion order. For a month that is an
  inherited name (\<^verbatim>\<open>valueOf\<close> has seven characters) \<^verbatim>\<open>cohorts[month]\<close> is a function,
  no set is made and \<^verbatim>\<open>.add\<close> is not callable: \<open>TypeError\<close>. \<^verbatim>\<open>sort()\<close> without a
  comparator orders strings by their code units, here the order of \<^typ>\<open>string\<close>.
\<close>

definition set_add :: "'a \<Rightarrow> 'a list \<Rightarrow> 'a list" where
  "set_add x xs = (if x \<in> set xs then xs else xs @ [x])"

definition add_cohort :: "(string list) obj \<Rightarrow> transaction \<Rightarrow> failure + (string list) obj" where
  "add_cohort cohorts t =
     (if truthy (InvoiceDate t) \<and> truthy (CustomerID t) then
        (let month = take 7 (or_str (InvoiceDate t) []) in
         if inherited month then Inl TypeError
         else Inr (AList.update month
                     (set_add (or_str (CustomerID t) [])
                        (case map_of cohorts month of None \<Rightarrow> [] | Some members \<Rightarrow> members))
                     cohorts))
      else Inr cohorts)"

definition renderCohortChart :: "transaction list \<Rightarrow> failure + (string list \<times> nat list)" where
  "renderCohortChart transactions =
     (case forEach add_cohort [] transactions of
        Inl e \<Rightarrow> Inl e
      | Inr cohorts \<Rightarrow>
          (let months = take 12 (sort (keys cohorts));
               sizes = map (\<lambda>m. case map_of cohorts m of None \<Rightarrow> 0 | Some members \<Rightarrow> length members) months
           in Inr (months, sizes)))"

text \<open>The month of a transaction that has a date and a customer, and a month's customers.\<close>

definition month_of :: "transaction \<Rightarrow> string option" where
  "month_of t =
     (if truthy (InvoiceDate t) \<and> truthy (CustomerID t)
      then Some (take 7 (or_str (InvoiceDate t) [])) else None)"

definition customers_in :: "transaction list \<Rightarrow> string \<Rightarrow> string set" where
  "customers_in ts m = (\<lambda>t. or_str (CustomerID t) []) ` {t \<in> set ts. month_of t = Some m}"

definition plain_month :: "transaction \<Rightarrow> bool" where
  "plain_month t = (case month_of t of None \<Rightarrow> True | Some m \<Rightarrow> \<not> inherited m)"

text \<open>The set an object holds under a key, empty when it has none.\<close>

definition members :: "(string list) obj \<Rightarrow> string \<Rightarrow> string list" where
  "members ob m = (case map_of ob m of None \<Rightarrow> [] | Some ms \<Rightarrow> ms)"

subsection \<open>Product associations\<close>

text \<open>
  \<^verbatim>\<open>
  const invoices = {};
  transactions.forEach(t => {
    if (!invoices[t.Invoice]) invoices[t.Invoice] = [];
    invoices[t.Invoice].push(t.StockCode);
  });
  const associations = {};
  Object.values(invoices).forEach(items => {
    if (items.length > 1) {
      items.forEach(item1 => {
        items.forEach(item2 => {
          if (item1 !== item2) {
            const key = [item1, item2].sort().join('|');
            associations[key] = (associations[key] || 0) + 1;
          }
        });
      });
    }
  });
  const topPairs = Object.entries(associations)
    .sort((a, b) => b[1] - a[1])
    .slice(0, 10);
  \<close>
  A property name is a string: an absent invoice number is the key \<^verbatim>\<open>undefined\<close>, a
  \<^verbatim>\<open>null\<close> one the key \<^verbatim>\<open>null\<close>. For an invoice number that is an inherited name
  \<^verbatim>\<open>invoices[t.Invoice]\<close> is truthy and has no \<^verbatim>\<open>push\<close>: \<open>TypeError\<close>. The default
  \<^verbatim>\<open>sort\<close> puts \<^verbatim>\<open>undefined\<close> last and compares the rest as strings, keeping the order of
  equal ones; \<^verbatim>\<open>join\<close> writes \<^verbatim>\<open>undefined\<close> and \<^verbatim>\<open>null\<close> as the empty string. A key holds
  the character \<^verbatim>\<open>|\<close>, which no inherited name does.
\<close>

fun property_key :: "string field \<Rightarrow> string" where
  "property_key Absent = ''undefined''"
| "property_key Null = ''null''"
| "property_key (Val s) = s"

fun join_text :: "string field \<Rightarrow> string" where
  "join_text (Val s) = s"
| "join_text _ = []"

definition add_invoice :: "(string field list) obj \<Rightarrow> transaction \<Rightarrow> failure + (string field list) obj" where
  "add_invoice invoices t =
     (let k = property_key (Invoice t) in
      if inherited k then Inl TypeError
      else Inr (AList.update k
                  ((case map_of invoices k of None \<Rightarrow> [] | Some items \<Rightarrow> items) @ [StockCode t])
                  invoices))"

definition sort_pair :: "string field \<Rightarrow> string field \<Rightarrow> string field list" where
  "sort_pair item1 item2 =
     (if item1 = Absent then [item2, item1]
      else if item2 = Absent then [item1, item2]
      else if property_key item2 < property_key item1 then [item2, item1]
      else [item1, item2])"

definition pair_key :: "string field \<Rightarrow> string field \<Rightarrow> string" where
  "pair_key item1 item2 = join ''|'' (map join_text (sort_pair item1 item2))"

definition count_pair :: "string field \<Rightarrow> nat obj \<Rightarrow> string field \<Rightarrow> nat obj" where
  "count_pair item1 associations item2 =
     (if item1 \<noteq> item2 then
        (let key = pair_key item1 item2 in
         AList.update key ((case map_of associations key of None \<Rightarrow> 0 | Some n \<Rightarrow> n) + 1) associations)
      else associations)"

definition count_items :: "nat obj \<Rightarrow> string field list \<Rightarrow> nat obj" where
  "count_items associations items =
     (if length items > 1 then
        foldl (\<lambda>assoc item1. foldl (count_pair item1) assoc items) associations items
      else associations)"

definition renderAssociationChart :: "transaction list \<Rightarrow> failure + (string \<times> nat) list" where
  "renderAssociationChart transactions =
     (case forEach add_invoice [] transactions of
        Inl e \<Rightarrow> Inl e
      | Inr invoices \<Rightarrow>
          (let associations = foldl count_items [] (vals invoices)
           in Inr (take 10 (sort_by (\<lambda>a b. int (snd b) - int (snd a)) (entries associations)))))"

text \<open>
  For the examples: a transaction with no field at all, and a line item with an invoice
  number and a stock code, nothing else.
\<close>

definition no_fields :: transaction where
  "no_fields =
     \<lparr>t_id = Absent, Invoice = Absent, InvoiceDate = Absent, StockCode = Absent,
      Description = Absent, Quantity = Absent, Price = Absent, CustomerID = Absent,
      Country = Absent\<rparr>"

definition line_item :: "string \<Rightarrow> string \<Rightarrow> transaction" where
  "line_item number code =
     \<lparr>t_id = Absent, Invoice = Val number, InvoiceDate = Absent, StockCode = Val code,
      Description = Absent, Quantity = Absent, Price = Absent, CustomerID = Absent,
      Country = Absent\<rparr>"

subsection \<open>Linear forecast\<close>

text \<open>
  \<^verbatim>\<open>
  if (data.length < 3) { ... 'Not enough data for forecast' ...; return; }
  const lastThree = data.slice(-3);
  const avgGrowth = lastThree.length >= 2 ?
    (lastThree[lastThree.length - 1].Revenue - lastThree[0].Revenue) / lastThree.length : 0;
  const forecast = [];
  const lastMonth = data[data.length - 1];
  const lastDate = new Date(lastMonth.year_month + '-01');
  for (let i = 1; i <= 3; i++) {
    const nextDate = new Date(lastDate);
    nextDate.setMonth(nextDate.getMonth() + i);
    const yearMonth = nextDate.toISOString().substring(0, 7);
    forecast.push({
      year_month: yearMonth,
      Revenue: Math.max(0, lastMonth.Revenue + (avgGrowth * i))
    });
  }
  \<close>
  The month arithmetic of \<^verbatim>\<open>Date\<close> is the host's: \<open>month_after ym i\<close> is the label \<open>i\<close>
  months after \<open>ym\<close>, \<open>None\<close> where \<open>ym\<close> is no date (\<^verbatim>\<open>toISOString\<close> then throws a
  \<open>RangeError\<close>).
\<close>

text \<open>\<^verbatim>\<open>xs.slice(start, end)\<close>: a negative index counts from the end, all are clamped.\<close>

definition js_slice :: "'a list \<Rightarrow> int \<Rightarrow> int \<Rightarrow> 'a list" where
  "js_slice xs start end' =
     (let n = int (length xs);
          from = (if start < 0 then max (n + start) 0 else min start n);
          to = (if end' < 0 then max (n + end') 0 else min end' n)
      in take (nat (to - from)) (drop (nat from) xs))"

record month_point =
  year_month :: string
  Revenue :: rat

datatype forecast_view = NotEnoughData | Forecast "month_point list"

definition avgGrowth :: "month_point list \<Rightarrow> rat" where
  "avgGrowth lastThree =
     (if length lastThree \<ge> 2
      then (Revenue (lastThree ! (length lastThree - 1)) - Revenue (lastThree ! 0))
             / of_nat (length lastThree)
      else 0)"

definition forecast_step ::
  "(string \<Rightarrow> nat \<Rightarrow> string option) \<Rightarrow> month_point \<Rightarrow> rat \<Rightarrow> month_point list \<Rightarrow> nat
     \<Rightarrow> failure + month_point list" where
  "forecast_step month_after lastMonth growth forecast i =
     (case month_after (year_month lastMonth) i of
        None \<Rightarrow> Inl RangeError
      | Some yearMonth \<Rightarrow>
          Inr (forecast @ [\<lparr>year_month = yearMonth,
                            Revenue = max 0 (Revenue lastMonth + growth * of_nat i)\<rparr>]))"

definition renderForecastChart ::
  "(string \<Rightarrow> nat \<Rightarrow> string option) \<Rightarrow> month_point list \<Rightarrow> failure + forecast_view" where
  "renderForecastChart month_after data =
     (if length data < 3 then Inr NotEnoughData
      else
        (let lastThree = js_slice data (- 3) (int (length data));
             growth = avgGrowth lastThree;
             lastMonth = data ! (length data - 1)
         in case forEach (forecast_step month_after lastMonth growth) [] [1, 2, 3] of
              Inl e \<Rightarrow> Inl e
            | Inr forecast \<Rightarrow> Inr (Forecast forecast)))"

text \<open>A host for the examples: the three months after October 2011.\<close>

definition sample_month_after :: "string \<Rightarrow> nat \<Rightarrow> string option" where
  "sample_month_after ym i =
     (if ym = ''2011-10'' \<and> i = 1 then Some ''2011-11''
      else if ym = ''2011-10'' \<and> i = 2 then Some ''2011-12''
      else if ym = ''2011-10'' \<and> i = 3 then Some ''2012-01''
      else None)"

section \<open>The transactions table and its form\<close>

text \<open>
  The module-level variables \<^verbatim>\<open>currentTransactions\<close>, \<^verbatim>\<open>currentPage\<close> and
  \<^verbatim>\<open>editingTransactionId\<close>, and what the functions below write into the page: the body of
  the table, the pagination bar, the modal's title, its form and whether it is shown.
  \<^verbatim>\<open>pageSize\<close> is 50 and never assigned.
\<close>

definition pageSize :: int where
  "pageSize = 50"

datatype tbody = NothingRendered | NoTransactionsFound | Rows "transaction list"

record pager =
  page_shown :: int
  page_count :: int
  previous_disabled :: bool
  next_disabled :: bool

text \<open>
  The argument of \<^verbatim>\<open>openTransactionModal(id = null)\<close>: nothing, the \<^verbatim>\<open>_id\<close> string that
  \<^verbatim>\<open>editTransaction\<close> passes, or the click event that the listener of the add button
  passes.
\<close>

datatype modal_id = NoId | Id string | ClickEvent

record form =
  formInvoice :: string
  formStockCode :: string
  formDescription :: string
  formQuantity :: string
  formPrice :: string
  formCustomerID :: string
  formCountry :: string
  formInvoiceDate :: string

record app =
  currentTransactions :: "transaction list"
  currentPage :: int
  editingTransactionId :: modal_id
  transactionTable :: tbody
  pagination :: "pager option"
  modalTitle :: string
  transactionForm :: form
  modalActive :: bool

subsection \<open>Pagination\<close>

text \<open>
  \<^verbatim>\<open>
  function renderTransactionsTable(transactions) {
    tbody.innerHTML = '';
    if (transactions.length === 0) {
      tbody.innerHTML = '<tr><td colspan="11" ...>No transactions found</td></tr>';
      return;
    }
    const start = (currentPage - 1) * pageSize;
    const end = start + pageSize;
    const pageData = transactions.slice(start, end);
    pageData.forEach(t => { ... tbody.appendChild(tr); });
    renderPagination(transactions.length);
  }
  function renderPagination(total) {
    const totalPages = Math.ceil(total / pageSize);
    container.innerHTML = ` ... Page ${currentPage} of ${totalPages} ... `;
  }
  function changePage(page) {
    const totalPages = Math.ceil(currentTransactions.length / pageSize);
    if (page < 1 || page > totalPages) return;
    currentPage = page;
    renderTransactionsTable(currentTransactions);
  }
  \<close>
  A row of the table is the transaction it shows.
\<close>

definition total_pages :: "nat \<Rightarrow> int" where
  "total_pages total' = \<lceil>rat_of_nat total' / rat_of_int pageSize\<rceil>"

definition renderPagination :: "nat \<Rightarrow> app \<Rightarrow> app" where
  "renderPagination total' s =
     (let totalPages = total_pages total'
      in s\<lparr>pagination := Some \<lparr>page_shown = currentPage s, page_count = totalPages,
                                previous_disabled = (currentPage s = 1),
                                next_disabled = (currentPage s = totalPages)\<rparr>\<rparr>)"

definition renderTransactionsTable :: "transaction list \<Rightarrow> app \<Rightarrow> app" where
  "renderTransactionsTable transactions s =
     (if length transactions = 0 then s\<lparr>transactionTable := NoTransactionsFound\<rparr>
      else
        (let start = (currentPage s - 1) * pageSize;
             end' = start + pageSize;
             pageData = js_slice transactions start end'
         in renderPagination (length transactions) (s\<lparr>transactionTable := Rows pageData\<rparr>)))"

definition changePage :: "int \<Rightarrow> app \<Rightarrow> app" where
  "changePage page s =
     (let totalPages = total_pages (length (currentTransactions s))
      in if page < 1 \<or> page > totalPages then s
         else renderTransactionsTable (currentTransactions s) (s\<lparr>currentPage := page\<rparr>))"

text \<open>
  \<^verbatim>\<open>
  async function fetchTransactionsList() {
    ...
    currentTransactions = await res.json();
    renderTransactionsTable(currentTransactions);
    ...
  }
  \<close>
  The list that the backend answers is a parameter. \<^verbatim>\<open>currentPage\<close> is not assigned here.
\<close>

definition fetchTransactionsList :: "transaction list \<Rightarrow> app \<Rightarrow> app" where
  "fetchTransactionsList response s =
     renderTransactionsTable response (s\<lparr>currentTransactions := response\<rparr>)"

subsection \<open>The modal form\<close>

text \<open>
  What the form code takes from its host: the API prefix, the text of a number in an
  input, \<^verbatim>\<open>new Date(d).toISOString().slice(0, 16)\<close> (\<open>None\<close> where \<open>d\<close> is no date and
  \<^verbatim>\<open>toISOString\<close> throws), the current time in ISO form, \<^verbatim>\<open>parseInt\<close> and
  \<^verbatim>\<open>parseFloat\<close> (\<open>None\<close> for \<^verbatim>\<open>NaN\<close>), the text of a click event in a template string,
  and the form as \<^verbatim>\<open>form.reset()\<close> leaves it.
\<close>

record host =
  API_BASE :: string
  number_text :: "rat \<Rightarrow> string"
  iso_minutes :: "string \<Rightarrow> string option"
  now_iso :: string
  parseInt :: "string \<Rightarrow> rat option"
  parseFloat :: "string \<Rightarrow> rat option"
  event_text :: string
  blank_form :: form

text \<open>
  \<^verbatim>\<open>
  function openTransactionModal(id = null) {
    editingTransactionId = id;
    if (id) {
      title.textContent = 'Edit Transaction';
      const transaction = currentTransactions.find(t => t._id === id);
      if (transaction) {
        document.getElementById('formInvoice').value = transaction.Invoice || '';
        document.getElementById('formStockCode').value = transaction.StockCode || '';
        document.getElementById('formDescription').value = transaction.Description || '';
        document.getElementById('formQuantity').value = transaction.Quantity || 1;
        document.getElementById('formPrice').value = transaction.Price || 0;
        document.getElementById('formCustomerID').value = transaction.CustomerID || '';
        document.getElementById('formCountry').value = transaction.Country || '';
        if (transaction.InvoiceDate) {
          const date = new Date(transaction.InvoiceDate);
          document.getElementById('formInvoiceDate').value = date.toISOString().slice(0, 16);
        }
      }
    } else {
      title.textContent = 'Add New Transaction';
      form.reset();
    }
    modal.classList.add('active');
  }
  \<close>
  The result is the state as the function leaves it and the error it throws, if any.
  The function has no \<^verbatim>\<open>try\<close>: a \<open>RangeError\<close> of \<^verbatim>\<open>toISOString\<close> leaves it after the
  editing id, the title and the seven other fields are written and before the modal is
  shown. It is the listener of the add button,
  \<^verbatim>\<open>getElementById('addTransactionBtn').addEventListener('click', openTransactionModal)\<close>,
  and is called by \<^verbatim>\<open>editTransaction(id)\<close> with the \<^verbatim>\<open>_id\<close> of a row.
\<close>

fun id_truthy :: "modal_id \<Rightarrow> bool" where
  "id_truthy NoId = False"
| "id_truthy (Id s) = (s \<noteq> [])"
| "id_truthy ClickEvent = True"

fun same_id :: "modal_id \<Rightarrow> transaction \<Rightarrow> bool" where
  "same_id (Id s) t = (t_id t = Val s)"
| "same_id NoId t = (t_id t = Null)"
| "same_id ClickEvent t = False"

definition prefill :: "host \<Rightarrow> transaction \<Rightarrow> form \<Rightarrow> form \<times> failure option" where
  "prefill h transaction f =
     (let f' = f\<lparr>formInvoice := or_str (Invoice transaction) [],
                  formStockCode := or_str (StockCode transaction) [],
                  formDescription := or_str (Description transaction) [],
                  formQuantity := number_text h (or_num (Quantity transaction) 1),
                  formPrice := number_text h (or_num (Price transaction) 0),
                  formCustomerID := or_str (CustomerID transaction) [],
                  formCountry := or_str (Country transaction) []\<rparr>
      in if truthy (InvoiceDate transaction) then
           (case iso_minutes h (or_str (InvoiceDate transaction) []) of
              None \<Rightarrow> (f', Some RangeError)
            | Some d \<Rightarrow> (f'\<lparr>formInvoiceDate := d\<rparr>, None))
         else (f', None))"

definition openTransactionModal :: "host \<Rightarrow> modal_id \<Rightarrow> app \<Rightarrow> app \<times> failure option" where
  "openTransactionModal h ident s =
     (let s1 = s\<lparr>editingTransactionId := ident\<rparr> in
      if id_truthy ident then
        (let s2 = s1\<lparr>modalTitle := ''Edit Transaction''\<rparr> in
         case find (same_id ident) (currentTransactions s2) of
           Some transaction \<Rightarrow>
             (case prefill h transaction (transactionForm s2) of
                (f, Some e) \<Rightarrow> (s2\<lparr>transactionForm := f\<rparr>, Some e)
              | (f, None) \<Rightarrow> (s2\<lparr>transactionForm := f, modalActive := True\<rparr>, None))
         | None \<Rightarrow> (s2\<lparr>modalActive := True\<rparr>, None))
      else (s1\<lparr>modalTitle := ''Add New Transaction'', transactionForm := blank_form h,
                modalActive := True\<rparr>, None))"

text \<open>
  \<^verbatim>\<open>
  const payload = {
    Invoice: document.getElementById('formInvoice').value,
    StockCode: document.getElementById('formStockCode').value,
    Description: document.getElementById('formDescription').value,
    Quantity: parseInt(document.getElementById('formQuantity').value),
    Price: parseFloat(document.getElementById('formPrice').value),
    CustomerID: document.getElementById('formCustomerID').value,
    Country: document.getElementById('formCountry').value,
    InvoiceDate: document.getElementById('formInvoiceDate').value || new Date().toISOString()
  };
  if (editingTransactionId) {
    res = await fetch(`${API_BASE}/transactions/${editingTransactionId}`, { method: 'PUT', ... });
  } else {
    res = await fetch(`${API_BASE}/transactions`, { method: 'POST', ... });
  }
  \<close>
  The request that \<^verbatim>\<open>handleTransactionSubmit\<close> sends; its body is the payload.
\<close>

record payload =
  body_Invoice :: string
  body_StockCode :: string
  body_Description :: string
  body_Quantity :: "rat option"
  body_Price :: "rat option"
  body_CustomerID :: string
  body_Country :: string
  body_InvoiceDate :: string

datatype http_method = POST | PUT

record request =
  req_method :: http_method
  url :: string
  body :: payload

definition payload_of :: "host \<Rightarrow> form \<Rightarrow> payload" where
  "payload_of h f =
     \<lparr>body_Invoice = formInvoice f,
      body_StockCode = formStockCode f,
      body_Description = formDescription f,
      body_Quantity = parseInt h (formQuantity f),
      body_Price = parseFloat h (formPrice f),
      body_CustomerID = formCustomerID f,
      body_Country = formCountry f,
      body_InvoiceDate = (if formInvoiceDate f \<noteq> [] then formInvoiceDate f else now_iso h)\<rparr>"

fun id_text :: "host \<Rightarrow> modal_id \<Rightarrow> string" where
  "id_text h NoId = ''null''"
| "id_text h (Id s) = s"
| "id_text h ClickEvent = event_text h"

definition handleTransactionSubmit :: "host \<Rightarrow> app \<Rightarrow> request" where
  "handleTransactionSubmit h s =
     (let payload = payload_of h (transactionForm s) in
      if id_truthy (editingTransactionId s)
      then \<lparr>req_method = PUT,
            url = API_BASE h @ ''/transactions/'' @ id_text h (editingTransactionId s),
            body = payload\<rparr>
      else \<lparr>req_method = POST, url = API_BASE h @ ''/transactions'', body = payload\<rparr>)"

subsection \<open>States and a host for the examples\<close>

definition hundred_twenty :: app where
  "hundred_twenty =
     \<lparr>currentTransactions = replicate 120 no_fields, currentPage = 1, editingTransactionId = NoId,
      transactionTable = NothingRendered, pagination = None, modalTitle = [],
      transactionForm = \<lparr>formInvoice = [], formStockCode = [], formDescription = [],
        formQuantity = [], formPrice = [], formCustomerID = [], formCountry = [],
        formInvoiceDate = []\<rparr>, modalActive = False\<rparr>"

text \<open>
  From page 1 of 120 records to page 3 by the button of the pagination bar, then an
  answer of the backend with 10 records.
\<close>

definition shorter_answer :: app where
  "shorter_answer =
     fetchTransactionsList (replicate 10 no_fields) (changePage 3 (changePage 2 hundred_twenty))"

definition sample_host :: host where
  "sample_host =
     \<lparr>API_BASE = ''http://localhost:5000/api'',
      number_text = (\<lambda>q. show_int \<lfloor>q\<rfloor>),
      iso_minutes = (\<lambda>d. if length d \<ge> 16 then Some (take 16 d) else None),
      now_iso = ''2026-01-01T00:00:00.000Z'',
      parseInt = (\<lambda>s. if s \<noteq> [] \<and> list_all is_digit s then Some (of_nat (nat_of_digits s)) else None),
      parseFloat = (\<lambda>s. if s \<noteq> [] \<and> list_all is_digit s then Some (of_nat (nat_of_digits s)) else None),
      event_text = ''[object PointerEvent]'',
      blank_form = \<lparr>formInvoice = [], formStockCode = [], formDescription = [],
        formQuantity = ''1'', formPrice = [], formCustomerID = [], formCountry = [],
        formInvoiceDate = []\<rparr>\<rparr>"

definition sample_app :: app where
  "sample_app =
     \<lparr>currentTransactions =
        [no_fields\<lparr>t_id := Val ''a1'', Invoice := Val ''536365'', StockCode := Val ''71053'',
           Description := Val ''WHITE METAL LANTERN'', Quantity := Val 6, Price := Val 3,
           CustomerID := Val ''17850'', Country := Val ''United Kingdom'',
           InvoiceDate := Val ''2010-12-01T08:26:00.000Z''\<rparr>,
         no_fields\<lparr>t_id := Val ''b2'', Invoice := Val ''536366'', Quantity := Val 0\<rparr>],
      currentPage = 1, editingTransactionId = NoId,
      transactionTable = NothingRendered, pagination = None, modalTitle = [],
      transactionForm = \<lparr>formInvoice = ''536365'', formStockCode = ''71053'', formDescription = [],
        formQuantity = ''6'', formPrice = ''3'', formCustomerID = [], formCountry = [],
        formInvoiceDate = ''2010-12-01T08:26''\<rparr>, modalActive = False\<rparr>"

section \<open>The product table\<close>

text \<open>
  \<^verbatim>\<open>
  function filterProducts(query) {
    const q = query.toLowerCase().trim();
    if (!q) { renderProductsTable(currentProducts); return; }
    const filtered = currentProducts.filter(p => {
      const desc = (p.Description || '').toLowerCase();
      const code = (p.StockCode || '').toLowerCase();
      return desc.includes(q) || code.includes(q);
    });
    renderProductsTable(filtered);
  }
  function sortProducts(sortBy) {
    let sorted = [...currentProducts];
    switch(sortBy) {
      case 'revenue':  sorted.sort((a, b) => (b.Revenue || 0) - (a.Revenue || 0)); break;
      case 'quantity': sorted.sort((a, b) => (b.Quantity || 0) - (a.Quantity || 0)); break;
      case 'code':     sorted.sort((a, b) => (a.StockCode || '').localeCompare(b.StockCode || '')); break;
    }
    renderProductsTable(sorted);
  }
  \<close>
  \<^verbatim>\<open>sort\<close> rearranges the array it is called on, and \<^verbatim>\<open>currentProducts\<close> is a reference:
  arrays live in a store, addressed by their position in it, and a new array takes the
  next address. \<^verbatim>\<open>localeCompare\<close> is the host's collation. Case folding and trimming
  are those of ASCII text.
\<close>

record product =
  prod_StockCode :: "string field"
  prod_Description :: "string field"
  prod_Quantity :: "rat field"
  prod_Revenue :: "rat field"

datatype product_table = NoProductsFound | ProductRows "product list"

record catalog =
  store :: "product list list"
  currentProducts :: nat
  productTable :: product_table

definition deref :: "'a list list \<Rightarrow> nat \<Rightarrow> 'a list" where
  "deref st a = (if a < length st then st ! a else [])"

definition toLowerCase :: "string \<Rightarrow> string" where
  "toLowerCase s =
     map (\<lambda>c. case map_of (zip ''ABCDEFGHIJKLMNOPQRSTUVWXYZ'' ''abcdefghijklmnopqrstuvwxyz'') c of
                 None \<Rightarrow> c | Some l \<Rightarrow> l) s"

definition trim :: "string \<Rightarrow> string" where
  "trim s = rev (dropWhile is_space (rev (dropWhile is_space s)))"

fun starts_with :: "string \<Rightarrow> string \<Rightarrow> bool" where
  "starts_with s [] = True"
| "starts_with [] (c # q) = False"
| "starts_with (x # s) (c # q) = (x = c \<and> starts_with s q)"

fun js_includes :: "string \<Rightarrow> string \<Rightarrow> bool" where
  "js_includes [] q = (q = [])"
| "js_includes (x # s) q = (starts_with (x # s) q \<or> js_includes s q)"

definition renderProductsTable :: "product list \<Rightarrow> catalog \<Rightarrow> catalog" where
  "renderProductsTable products s =
     s\<lparr>productTable := (if length products = 0 then NoProductsFound else ProductRows products)\<rparr>"

definition matches :: "string \<Rightarrow> product \<Rightarrow> bool" where
  "matches q p =
     (let desc = toLowerCase (or_str (prod_Description p) []);
          code = toLowerCase (or_str (prod_StockCode p) [])
      in js_includes desc q \<or> js_includes code q)"

definition filterProducts :: "string \<Rightarrow> catalog \<Rightarrow> catalog" where
  "filterProducts query s =
     (let q = trim (toLowerCase query) in
      if q = [] then renderProductsTable (deref (store s) (currentProducts s)) s
      else
        (let filtered = length (store s);
             s' = s\<lparr>store := store s @ [filter (matches q) (deref (store s) (currentProducts s))]\<rparr>
         in renderProductsTable (deref (store s') filtered) s'))"

definition sort_in_place :: "nat \<Rightarrow> (product \<Rightarrow> product \<Rightarrow> rat) \<Rightarrow> catalog \<Rightarrow> catalog" where
  "sort_in_place a cmp s = s\<lparr>store := (store s)[a := sort_by cmp (deref (store s) a)]\<rparr>"

definition sortProducts :: "(string \<Rightarrow> string \<Rightarrow> rat) \<Rightarrow> string \<Rightarrow> catalog \<Rightarrow> catalog" where
  "sortProducts localeCompare sortBy s =
     (let sorted = length (store s);
          s1 = s\<lparr>store := store s @ [deref (store s) (currentProducts s)]\<rparr>;
          s2 = (if sortBy = ''revenue'' then
                  sort_in_place sorted (\<lambda>a b. or_num (prod_Revenue b) 0 - or_num (prod_Revenue a) 0) s1
                else if sortBy = ''quantity'' then
                  sort_in_place sorted (\<lambda>a b. or_num (prod_Quantity b) 0 - or_num (prod_Quantity a) 0) s1
                else if sortBy = ''code'' then
                  sort_in_place sorted
                    (\<lambda>a b. localeCompare (or_str (prod_StockCode a) []) (or_str (prod_StockCode b) [])) s1
                else s1)
      in renderProductsTable (deref (store s2) sorted) s2)"

text \<open>What the user does on the product tab: typing in the search box, choosing a sort key.\<close>

datatype product_event = Search string | SortBy string

fun handle :: "(string \<Rightarrow> string \<Rightarrow> rat) \<Rightarrow> catalog \<Rightarrow> product_event \<Rightarrow> catalog" where
  "handle localeCompare s (Search query) = filterProducts query s"
| "handle localeCompare s (SortBy sortBy) = sortProducts localeCompare sortBy s"

text \<open>A catalog and a collation for the examples.\<close>

definition sample_localeCompare :: "string \<Rightarrow> string \<Rightarrow> rat" where
  "sample_localeCompare a b = (if a < b then - 1 else if b < a then 1 else 0)"

definition sample_catalog :: catalog where
  "sample_catalog =
     \<lparr>store = [[\<lparr>prod_StockCode = Val ''71053'', prod_Description = Val ''WHITE METAL LANTERN'',
                  prod_Quantity = Val 6, prod_Revenue = Val 20\<rparr>,
                \<lparr>prod_StockCode = Val ''22752'', prod_Description = Val ''SET 7 BABUSHKA NESTING BOXES'',
                  prod_Quantity = Val 2, prod_Revenue = Val 15\<rparr>,
                \<lparr>prod_StockCode = Val ''84406B'', prod_Description = Null,
                  prod_Quantity = Val 8, prod_Revenue = Val 22\<rparr>]],
      currentProducts = 0,
      productTable = NoProductsFound\<rparr>"

section \<open>Properties\<close>

lemmas object_order = keys_def vals_def entries_def is_array_index_def is_digit_def
  nat_of_digits_def digit_val_def

subsection \<open>Percent-encoding can be read back\<close>

lemma hex_table:
  "\<forall>i\<in>{..<16::nat}. hex_val (''0123456789ABCDEF'' ! i) = i
      \<and> ''0123456789ABCDEF'' ! i \<noteq> CHR ''&'' \<and> ''0123456789ABCDEF'' ! i \<noteq> CHR ''=''"
  by (simp add: lessThan_nat_numeral lessThan_Suc hex_val_def is_digit_def)

lemma hex_val_hex_digit: "hex_val (hex_digit m) = m mod 16"
  using hex_table by (simp add: hex_digit_def)

lemma hex_digit_plain: "hex_digit m \<noteq> CHR ''&'' \<and> hex_digit m \<noteq> CHR ''=''"
  using hex_table by (simp add: hex_digit_def)

lemma unreserved_plain: "\<not> unreserved CHR ''&'' \<and> \<not> unreserved CHR ''='' \<and> \<not> unreserved CHR ''%''"
  by (simp add: unreserved_def)

lemma encode_char_plain: "CHR ''&'' \<notin> set (encode_char c) \<and> CHR ''='' \<notin> set (encode_char c)"
proof (cases "unreserved c")
  case True
  then have "c \<noteq> CHR ''&'' \<and> c \<noteq> CHR ''=''" using unreserved_plain by blast
  with True show ?thesis by (auto simp: encode_char_def)
next
  case False
  then show ?thesis
    using hex_digit_plain [of "of_char c div 16"] hex_digit_plain [of "of_char c"]
    by (auto simp: encode_char_def)
qed

lemma encode_plain:
  "CHR ''&'' \<notin> set (encodeURIComponent s) \<and> CHR ''='' \<notin> set (encodeURIComponent s)"
  using encode_char_plain by (auto simp: encodeURIComponent_def)

lemma byte_nibbles: "n < 256 \<Longrightarrow> 16 * (n div 16 mod 16) + n mod 16 = (n::nat)"
proof -
  assume "n < 256"
  then have "n div 16 < 16" by simp
  then have "n div 16 mod 16 = n div 16" by simp
  then show ?thesis by simp
qed

lemma decode_encode_char:
  "percent_decode (encode_char c @ rest) = c # percent_decode rest"
proof (cases "unreserved c")
  case True
  then have "c \<noteq> CHR ''%''" using unreserved_plain by blast
  with True show ?thesis by (simp add: encode_char_def)
next
  case False
  have "(of_char c :: nat) < 256" by simp
  then have "16 * ((of_char c :: nat) div 16 mod 16) + of_char c mod 16 = of_char c"
    by (rule byte_nibbles)
  with False show ?thesis
    by (simp add: encode_char_def hex_val_hex_digit)
qed

lemma decode_encode_append:
  "percent_decode (encodeURIComponent s @ rest) = s @ percent_decode rest"
  by (induction s) (simp_all add: encodeURIComponent_def decode_encode_char)

lemma decode_encode: "percent_decode (encodeURIComponent s) = s"
  using decode_encode_append [of s "[]"] by simp

lemma split_on_plain: "d \<notin> set s \<Longrightarrow> split_on d s = [s]"
  by (induction s) auto

lemma split_on_append: "d \<notin> set s \<Longrightarrow> split_on d (s @ d # t) = s # split_on d t"
  by (induction s) auto

lemma split_on_join:
  "parts \<noteq> [] \<Longrightarrow> \<forall>p\<in>set parts. d \<notin> set p \<Longrightarrow> split_on d (join [d] parts) = parts"
proof (induction parts rule: induct_list012)
  case 1
  then show ?case by simp
next
  case (2 x)
  then show ?case by (simp add: split_on_plain)
next
  case (3 x y zs)
  then show ?case using split_on_append [of d x "join [d] (y # zs)"] by simp
qed

lemma join_eq_Nil: "join sep parts = [] \<Longrightarrow> \<forall>p\<in>set parts. p = []"
  by (induction sep parts rule: join.induct) auto

subsection \<open>Objects and their keys\<close>

lemma set_entries: "set (entries ob) = set ob"
  by (auto simp: entries_def)

lemma distinct_entries: "distinct (map fst ob) \<Longrightarrow> distinct (map fst (entries ob))"
proof -
  assume d: "distinct (map fst ob)"
  then have i: "inj_on fst (set ob)" and d': "distinct ob"
    by (simp_all add: distinct_map)
  let ?A = "sort_key (\<lambda>p. nat_of_digits (fst p)) (filter (\<lambda>p. is_array_index (fst p)) ob)"
  let ?B = "filter (\<lambda>p. \<not> is_array_index (fst p)) ob"
  have "distinct (?A @ ?B)" using d' by auto
  moreover have "inj_on fst (set (?A @ ?B))"
    using i by (rule inj_on_subset) auto
  ultimately show ?thesis
    unfolding entries_def by (simp only: distinct_map)
qed

lemma set_keys: "set (keys ob) = fst ` set ob"
  by (simp add: keys_def set_entries)

lemma distinct_keys: "distinct (map fst ob) \<Longrightarrow> distinct (keys ob)"
  by (simp add: keys_def distinct_entries)

lemma get_param_entry:
  "distinct (map fst ob) \<Longrightarrow> (k, v) \<in> set ob \<Longrightarrow> get_param ob k = v"
  by (simp add: get_param_def)

subsection \<open>Sorting with a comparator\<close>



lemma length_insert_by: "length (insert_by cmp x xs) = Suc (length xs)"
  by (induction xs) auto

lemma length_sort_by: "length (sort_by cmp xs) = length xs"
  by (induction xs) (simp_all add: sort_by_def length_insert_by)





subsection \<open>Query strings\<close>

lemma takeWhile_key:
  "takeWhile (\<lambda>x. x \<noteq> CHR ''='') (encodeURIComponent k @ CHR ''='' # rest) = encodeURIComponent k"
proof -
  have "\<forall>x\<in>set (encodeURIComponent k). x \<noteq> CHR ''=''"
    using encode_plain [of k] by auto
  then show ?thesis by (simp add: takeWhile_append2)
qed

lemma query_keys_pairs:
  assumes "kvs \<noteq> []"
  shows "query_keys (CHR ''?'' # join ''&'' (map (\<lambda>(k, v). encodeURIComponent k @ ''='' @ encodeURIComponent v) kvs))
          = map fst kvs"
proof -
  let ?parts = "map (\<lambda>(k, v). encodeURIComponent k @ ''='' @ encodeURIComponent v) kvs"
  have ne: "?parts \<noteq> []" using assms by simp
  have plain: "\<forall>p\<in>set ?parts. CHR ''&'' \<notin> set p"
    using encode_plain by auto
  have "split_on CHR ''&'' (join ''&'' ?parts) = ?parts"
    using split_on_join [OF ne plain] by simp
  then have "query_keys (CHR ''?'' # join ''&'' ?parts)
      = map (\<lambda>part. percent_decode (takeWhile (\<lambda>x. x \<noteq> CHR ''='') part)) ?parts"
    by simp
  also have "\<dots> = map fst kvs"
    by (simp add: comp_def case_prod_unfold takeWhile_key decode_encode)
  finally show ?thesis .
qed

lemma buildQuery_alt:
  "buildQuery params =
     (let kvs = map (\<lambda>k. (k, ToString (get_param params k)))
                  (filter (\<lambda>k. present (get_param params k)) (keys params))
      in if kvs = [] then []
         else CHR ''?'' # join ''&'' (map (\<lambda>(k, v). encodeURIComponent k @ ''='' @ encodeURIComponent v) kvs))"
proof -
  let ?kept = "filter (\<lambda>k. present (get_param params k)) (keys params)"
  let ?f = "\<lambda>k. encodeURIComponent k @ ''='' @ encodeURIComponent (ToString (get_param params k))"
  have eq: "map (\<lambda>(k, v). encodeURIComponent k @ ''='' @ encodeURIComponent v)
        (map (\<lambda>k. (k, ToString (get_param params k))) ?kept) = map ?f ?kept"
    by simp
  have "join ''&'' (map ?f ?kept) = [] \<longleftrightarrow> ?kept = []"
  proof
    assume "join ''&'' (map ?f ?kept) = []"
    then have "\<forall>p\<in>set (map ?f ?kept). p = []" by (rule join_eq_Nil)
    then show "?kept = []" by (cases ?kept) auto
  next
    assume "?kept = []"
    then show "join ''&'' (map ?f ?kept) = []" by simp
  qed
  then show ?thesis
    unfolding buildQuery_def Let_def eq by auto
qed

lemma query_keys_buildQuery:
  "query_keys (buildQuery params) = filter (\<lambda>k. present (get_param params k)) (keys params)"
proof -
  let ?kept = "filter (\<lambda>k. present (get_param params k)) (keys params)"
  let ?kvs = "map (\<lambda>k. (k, ToString (get_param params k))) ?kept"
  show ?thesis
  proof (cases "?kept = []")
    case True
    then show ?thesis by (simp add: buildQuery_alt)
  next
    case False
    then have "?kvs \<noteq> []" by simp
    then have "query_keys (buildQuery params) = map fst ?kvs"
      using query_keys_pairs [of ?kvs] by (simp add: buildQuery_alt Let_def)
    then show ?thesis by (simp add: comp_def)
  qed
qed

lemma join_nonempty:
  "parts \<noteq> [] \<Longrightarrow> \<forall>p\<in>set parts. p \<noteq> [] \<Longrightarrow> join sep parts \<noteq> []"
  by (induction sep parts rule: join.induct) auto

lemma getFilters_query_keys:
  "query_keys (buildQuery (getFilters panel))
     = (if startDate panel \<noteq> [] then [''start_date''] else [])
       @ (if endDate panel \<noteq> [] then [''end_date''] else [])
       @ (if filter (\<lambda>v. v \<noteq> []) (countrySelect panel) \<noteq> [] then [''countries''] else [])"
proof -
  let ?sel = "filter (\<lambda>v. v \<noteq> []) (countrySelect panel)"
  have j: "?sel \<noteq> [] \<Longrightarrow> join '','' ?sel \<noteq> []"
    by (rule join_nonempty) simp_all
  have k: "keys (getFilters panel) = [''start_date'', ''end_date'', ''countries'']"
    by (simp add: getFilters_def object_order Let_def)
  show ?thesis
    unfolding query_keys_buildQuery k using j
    by (simp add: getFilters_def get_param_def present_def or_null_def Let_def)
qed

text \<open>
  Claim C6. For a parameter object (own keys distinct), the query string of
  \<open>buildQuery\<close> carries exactly the keys whose value is not \<^verbatim>\<open>undefined\<close>, not
  \<^verbatim>\<open>null\<close> and not the empty string, each once and in the order of \<^verbatim>\<open>Object.keys\<close>;
  when no key is left the result is the empty string, otherwise it starts with \<^verbatim>\<open>?\<close>.
\<close>

theorem buildQuery_keeps_present_keys:
  assumes "distinct (map fst params)"
  shows "query_keys (buildQuery params) = filter (\<lambda>k. present (get_param params k)) (keys params)
       \<and> set (query_keys (buildQuery params))
           = {k. \<exists>v. (k, v) \<in> set params \<and> v \<noteq> JUndefined \<and> v \<noteq> JNull \<and> v \<noteq> JStr []}
       \<and> distinct (query_keys (buildQuery params))
       \<and> (if {k. \<exists>v. (k, v) \<in> set params \<and> v \<noteq> JUndefined \<and> v \<noteq> JNull \<and> v \<noteq> JStr []} = {}
          then buildQuery params = []
          else take 1 (buildQuery params) = ''?'')"
proof -
  let ?kept = "filter (\<lambda>k. present (get_param params k)) (keys params)"
  let ?S = "{k. \<exists>v. (k, v) \<in> set params \<and> v \<noteq> JUndefined \<and> v \<noteq> JNull \<and> v \<noteq> JStr []}"
  have q: "query_keys (buildQuery params) = ?kept"
    by (rule query_keys_buildQuery)
  have s: "set ?kept = ?S"
  proof (intro set_eqI iffI)
    fix k assume "k \<in> set ?kept"
    then have "k \<in> fst ` set params" and p: "present (get_param params k)"
      by (simp_all add: set_keys)
    then obtain v where v: "(k, v) \<in> set params" by auto
    then have "get_param params k = v" using assms by (simp add: get_param_entry)
    with p v show "k \<in> ?S" by (auto simp: present_def)
  next
    fix k assume "k \<in> ?S"
    then obtain v where v: "(k, v) \<in> set params" and p: "present v"
      by (auto simp: present_def)
    then have "get_param params k = v" using assms by (simp add: get_param_entry)
    moreover have "k \<in> set (keys params)" using v by (force simp: set_keys)
    ultimately show "k \<in> set ?kept" using p by simp
  qed
  have d: "distinct ?kept" using distinct_keys [OF assms] by simp
  have e: "if ?S = {} then buildQuery params = [] else take 1 (buildQuery params) = ''?''"
  proof (cases "?kept = []")
    case True
    then have "?S = {}" using s by simp
    then show ?thesis using True by (simp add: buildQuery_alt)
  next
    case False
    have "?S = set ?kept" using s by (rule sym)
    then have "?S \<noteq> {}" using False by (simp only: set_empty not_False_eq_True)
    then show ?thesis using False by (simp add: buildQuery_alt)
  qed
  show ?thesis using q s d e by simp
qed

theorem buildQuery_keeps_present_keys_witness:
  "distinct (map fst [(''start_date'', JStr ''2020-01-01''), (''end_date'', JNull), (''countries'', JStr []),
        (''limit'', JInt 10), (''segment'', JUndefined)])
   \<and> query_keys (buildQuery [(''start_date'', JStr ''2020-01-01''), (''end_date'', JNull), (''countries'', JStr []),
        (''limit'', JInt 10), (''segment'', JUndefined)]) = [''start_date'', ''limit'']
   \<and> buildQuery [(''start_date'', JStr ''2020-01-01''), (''end_date'', JNull), (''countries'', JStr []),
        (''limit'', JInt 10), (''segment'', JUndefined)] = ''?start_date=2020-01-01&limit=10''
   \<and> buildQuery [(''end_date'', JNull), (''countries'', JStr [])] = []"
  using buildQuery_keeps_present_keys [of "[(''start_date'', JStr ''2020-01-01''), (''end_date'', JNull), (''countries'', JStr []),
        (''limit'', JInt 10), (''segment'', JUndefined)]"]
  by (simp add: buildQuery_def keys_def entries_def is_array_index_def is_digit_def get_param_def present_def
        encodeURIComponent_def encode_char_def unreserved_def show_int_def show_nat.simps digit_char_def)

text \<open>
  Claim C3. For every state of the filter panel the query string carries, in this
  order, \<^verbatim>\<open>start_date\<close>, \<^verbatim>\<open>end_date\<close> and \<^verbatim>\<open>countries\<close>, each when its input is non-empty,
  and never \<^verbatim>\<open>segment\<close>: \<open>getFilters\<close> does not read the segment selector. With the
  segment \<^verbatim>\<open>VIP\<close> chosen and nothing else, the query string is empty.
\<close>

theorem segment_never_reaches_query:
  "query_keys (buildQuery (getFilters panel))
     = (if startDate panel \<noteq> [] then [''start_date''] else [])
       @ (if endDate panel \<noteq> [] then [''end_date''] else [])
       @ (if filter (\<lambda>v. v \<noteq> []) (countrySelect panel) \<noteq> [] then [''countries''] else [])
   \<and> ''segment'' \<notin> set (query_keys (buildQuery (getFilters panel)))
   \<and> buildQuery (getFilters \<lparr>startDate = ''2010-12-01'', endDate = [], countrySelect = [''France''],
                  segmentFilter = ''VIP''\<rparr>) = ''?start_date=2010-12-01&countries=France''
   \<and> buildQuery (getFilters \<lparr>startDate = [], endDate = [], countrySelect = [],
                  segmentFilter = ''VIP''\<rparr>) = []"
proof -
  have a: "''segment'' \<notin> set (query_keys (buildQuery (getFilters panel)))"
    by (simp add: getFilters_query_keys)
  have b: "buildQuery (getFilters \<lparr>startDate = ''2010-12-01'', endDate = [], countrySelect = [''France''],
                  segmentFilter = ''VIP''\<rparr>) = ''?start_date=2010-12-01&countries=France''
   \<and> buildQuery (getFilters \<lparr>startDate = [], endDate = [], countrySelect = [],
                  segmentFilter = ''VIP''\<rparr>) = []"
    by (simp add: getFilters_def or_null_def buildQuery_def get_param_def present_def
        encodeURIComponent_def encode_char_def unreserved_def object_order)
  show ?thesis using getFilters_query_keys [of panel] a b by blast
qed

subsection \<open>Revenue by day of week\<close>

lemma sum_list_add_at:
  "i < length xs \<Longrightarrow> sum_list (xs[i := xs ! i + r]) = sum_list xs + (r::rat)"
proof (induction xs arbitrary: i)
  case Nil
  then show ?case by simp
next
  case (Cons x xs)
  then show ?case by (cases i) simp_all
qed

lemma sum_abs_add_at:
  "i < length xs \<Longrightarrow>
   sum_list (map abs (xs[i := xs ! i + r])) \<le> sum_list (map abs xs) + \<bar>r::rat\<bar>"
proof (induction xs arbitrary: i)
  case Nil
  then show ?case by simp
next
  case (Cons x xs)
  show ?case
  proof (cases i)
    case 0
    then show ?thesis by simp
  next
    case (Suc j)
    then have "j < length xs" using Cons.prems by simp
    from Cons.IH [OF this] show ?thesis using Suc by simp
  qed
qed

lemma nth_le_sum_abs: "i < length xs \<Longrightarrow> \<bar>xs ! i\<bar> \<le> sum_list (map abs (xs::rat list))"
proof (induction xs arbitrary: i)
  case Nil
  then show ?case by simp
next
  case (Cons x xs)
  have nn: "0 \<le> sum_list (map abs xs)" by (rule sum_list_nonneg) auto
  show ?case
  proof (cases i)
    case 0
    then show ?thesis using nn by simp
  next
    case (Suc j)
    then have "j < length xs" using Cons.prems by simp
    from Cons.IH [OF this] show ?thesis using Suc by simp
  qed
qed

lemma exact_on_integers_Ints:
  assumes "exact_on_integers rnd" and "x \<in> \<int>" and "\<bar>x\<bar> < 2 ^ 53"
  shows "rnd x = x"
proof -
  from assms(2) obtain k :: int where k: "x = of_int k" by (rule Ints_cases)
  have "\<bar>rat_of_int k\<bar> < 2 ^ 53" using assms(3) k by simp
  then have "rat_of_int \<bar>k\<bar> < rat_of_int (2 ^ 53)" by simp
  then have "\<bar>k\<bar> < 2 ^ 53" by (simp only: of_int_less_iff)
  with assms(1) have "rnd (of_int k) = of_int k" by (simp add: exact_on_integers_def)
  with k show ?thesis by simp
qed

lemma day_index_less: "day_index d < 7"
  by (cases d) simp_all

lemma add_day_undated:
  "\<not> dated getDay t \<Longrightarrow> add_day rnd getDay buckets t = buckets"
  by (auto simp: dated_def add_day_def split: field.splits option.splits)

lemma add_day_dated:
  assumes "dated getDay t"
  shows "\<exists>i<7. add_day rnd getDay buckets t = buckets[i := rnd (buckets ! i + rnd (revenue t))]"
proof -
  from assms obtain d day where "InvoiceDate t = Val d" "d \<noteq> []" "getDay d = Some day"
    by (auto simp: dated_def split: field.splits)
  then have "add_day rnd getDay buckets t
      = buckets[day_index day := rnd (buckets ! day_index day + rnd (revenue t))]"
    by (simp add: add_day_def)
  then show ?thesis using day_index_less by blast
qed

lemma add_day_exact:
  assumes e: "exact_on_integers rnd" and l: "length buckets = 7"
    and bi: "list_all (\<lambda>x. x \<in> \<int>) buckets"
    and d: "dated getDay t" and ri: "revenue t \<in> \<int>"
    and bound: "sum_list (map abs buckets) + \<bar>revenue t\<bar> < 2 ^ 53"
  shows "length (add_day rnd getDay buckets t) = 7
       \<and> list_all (\<lambda>x. x \<in> \<int>) (add_day rnd getDay buckets t)
       \<and> sum_list (add_day rnd getDay buckets t) = sum_list buckets + revenue t
       \<and> sum_list (map abs (add_day rnd getDay buckets t)) \<le> sum_list (map abs buckets) + \<bar>revenue t\<bar>"
proof -
  from add_day_dated [OF d] obtain i where i: "i < 7"
    and a: "add_day rnd getDay buckets t = buckets[i := rnd (buckets ! i + rnd (revenue t))]"
    by blast
  have il: "i < length buckets" using i l by simp
  have nn: "0 \<le> sum_list (map abs buckets)" by (rule sum_list_nonneg) auto
  have "\<bar>revenue t\<bar> < 2 ^ 53" using bound nn by linarith
  then have r1: "rnd (revenue t) = revenue t"
    using e ri by (intro exact_on_integers_Ints)
  have bint: "buckets ! i \<in> \<int>" using bi il by (simp add: list_all_length)
  have "\<bar>buckets ! i + revenue t\<bar> \<le> \<bar>buckets ! i\<bar> + \<bar>revenue t\<bar>" by (rule abs_triangle_ineq)
  also have "\<dots> \<le> sum_list (map abs buckets) + \<bar>revenue t\<bar>"
    using nth_le_sum_abs [OF il] by simp
  finally have "\<bar>buckets ! i + revenue t\<bar> < 2 ^ 53" using bound by linarith
  then have r2: "rnd (buckets ! i + revenue t) = buckets ! i + revenue t"
    using e bint ri by (intro exact_on_integers_Ints) simp_all
  have a': "add_day rnd getDay buckets t = buckets[i := buckets ! i + revenue t]"
    using a r1 r2 by simp
  have "set (buckets[i := buckets ! i + revenue t]) \<subseteq> insert (buckets ! i + revenue t) (set buckets)"
    by (rule set_update_subset_insert)
  then have "list_all (\<lambda>x. x \<in> \<int>) (buckets[i := buckets ! i + revenue t])"
    using bi bint ri by (auto simp: list_all_iff)
  then show ?thesis
    using a' l il by (simp add: sum_list_add_at sum_abs_add_at)
qed

lemma foldl_add_day:
  assumes "exact_on_integers rnd"
  shows "length buckets = 7 \<Longrightarrow> list_all (\<lambda>x. x \<in> \<int>) buckets \<Longrightarrow>
   list_all (\<lambda>t. revenue t \<in> \<int>) (filter (dated getDay) ts) \<Longrightarrow>
   sum_list (map abs buckets) + sum_list (map (\<lambda>t. \<bar>revenue t\<bar>) (filter (dated getDay) ts)) < 2 ^ 53 \<Longrightarrow>
   length (foldl (add_day rnd getDay) buckets ts) = 7
   \<and> sum_list (foldl (add_day rnd getDay) buckets ts)
       = sum_list buckets + sum_list (map revenue (filter (dated getDay) ts))"
proof (induction ts arbitrary: buckets)
  case Nil
  then show ?case by simp
next
  case (Cons t ts)
  show ?case
  proof (cases "dated getDay t")
    case False
    then have "add_day rnd getDay buckets t = buckets" by (rule add_day_undated)
    then show ?thesis using Cons False by simp
  next
    case True
    let ?b = "add_day rnd getDay buckets t"
    let ?rest = "sum_list (map (\<lambda>t. \<bar>revenue t\<bar>) (filter (dated getDay) ts))"
    have nn: "0 \<le> ?rest" by (rule sum_list_nonneg) auto
    have ri: "revenue t \<in> \<int>" and rest_i: "list_all (\<lambda>t. revenue t \<in> \<int>) (filter (dated getDay) ts)"
      using Cons.prems(3) True by simp_all
    have total: "sum_list (map abs buckets) + \<bar>revenue t\<bar> + ?rest < 2 ^ 53"
      using Cons.prems(4) True by simp
    then have b1: "sum_list (map abs buckets) + \<bar>revenue t\<bar> < 2 ^ 53" using nn by linarith
    from add_day_exact [OF assms Cons.prems(1,2) True ri b1]
    have s: "length ?b = 7" "list_all (\<lambda>x. x \<in> \<int>) ?b"
      "sum_list ?b = sum_list buckets + revenue t"
      "sum_list (map abs ?b) \<le> sum_list (map abs buckets) + \<bar>revenue t\<bar>"
      by simp_all
    have b2: "sum_list (map abs ?b) + ?rest < 2 ^ 53" using s(4) total by linarith
    from Cons.IH [OF s(1,2) rest_i b2] show ?thesis using s(3) True by simp
  qed
qed

text \<open>The sample rounding is exact on the integers below \<open>2^53\<close>.\<close>

lemma round_even_of_int: "round_even (of_int k) = k"
  by (simp add: round_even_def)

lemma normalise_integer:
  "m \<in> \<int> \<Longrightarrow> 0 < m \<Longrightarrow> m < 2 ^ 53 \<Longrightarrow>
   fst (normalise n m u) \<in> \<int> \<and> fst (normalise n m u) * snd (normalise n m u) = m * u"
proof (induction n m u rule: normalise.induct)
  case (1 n m u)
  show ?case
  proof (cases "n = 0")
    case True
    then show ?thesis using "1.prems" by (simp add: normalise.simps)
  next
    case n: False
    show ?thesis
    proof (cases "m < 2 ^ 52")
      case True
      have step: "normalise n m u = normalise (n - 1) (m * 2) (u / 2)"
        using n True "1.prems" by (subst normalise.simps) simp
      have "m * 2 \<in> \<int>" using "1.prems"(1) by simp
      moreover have "0 < m * 2" using "1.prems"(2) by simp
      moreover have "m * 2 < 2 ^ 53" using True by simp
      ultimately have "fst (normalise (n - 1) (m * 2) (u / 2)) \<in> \<int>
          \<and> fst (normalise (n - 1) (m * 2) (u / 2)) * snd (normalise (n - 1) (m * 2) (u / 2))
              = m * 2 * (u / 2)"
        using "1.IH"(2) n True "1.prems"(3) by simp
      then show ?thesis using step by simp
    next
      case False
      then have "normalise n m u = (m, u)"
        using n "1.prems" by (subst normalise.simps) simp
      then show ?thesis using "1.prems" by simp
    qed
  qed
qed

lemma round53_pos_integer:
  assumes "x \<in> \<int>" and "0 < x" and "x < 2 ^ 53"
  shows "round53 x = x"
proof -
  obtain m u where mu: "normalise 1074 \<bar>x\<bar> 1 = (m, u)" by (cases "normalise 1074 \<bar>x\<bar> 1")
  have "fst (normalise 1074 x 1) \<in> \<int> \<and> fst (normalise 1074 x 1) * snd (normalise 1074 x 1) = x * 1"
    using assms by (rule normalise_integer)
  then have m: "m \<in> \<int>" and p: "m * u = x" using mu assms(2) by simp_all
  from m obtain k :: int where k: "m = of_int k" by (rule Ints_cases)
  have "round53 x = sgn x * of_int (round_even m) * u"
    using assms(2) mu by (simp add: round53_def)
  also have "\<dots> = m * u" using assms(2) k by (simp add: round_even_of_int)
  finally show ?thesis using p by simp
qed

lemma round53_neg: "round53 (- x) = - round53 x"
  by (simp add: round53_def sgn_minus split: prod.splits)

lemma round53_exact: "exact_on_integers round53"
  unfolding exact_on_integers_def
proof (intro allI impI)
  fix k :: int assume b: "\<bar>k\<bar> < 2 ^ 53"
  consider "k = 0" | "0 < k" | "k < 0" by linarith
  then show "round53 (of_int k) = of_int k"
  proof cases
    case 1
    then show ?thesis by (simp add: round53_def)
  next
    case 2
    have "k < 2 ^ 53" using b 2 by linarith
    then have "rat_of_int k < rat_of_int (2 ^ 53)" by (simp only: of_int_less_iff)
    then have "rat_of_int k < 2 ^ 53" by simp
    moreover have "rat_of_int k \<in> \<int>" by simp
    moreover have "0 < rat_of_int k" using 2 by simp
    ultimately show ?thesis by (intro round53_pos_integer)
  next
    case 3
    have "- k < 2 ^ 53" using b 3 by linarith
    then have "rat_of_int (- k) < rat_of_int (2 ^ 53)" by (simp only: of_int_less_iff)
    then have "rat_of_int (- k) < 2 ^ 53" by simp
    moreover have "rat_of_int (- k) \<in> \<int>" by (rule Ints_of_int)
    moreover have "0 < rat_of_int (- k)" using 3 by simp
    ultimately have "round53 (of_int (- k)) = of_int (- k)" by (intro round53_pos_integer)
    then have "round53 (- of_int k) = - rat_of_int k" by simp
    then show ?thesis by (simp add: round53_neg)
  qed
qed

lemma round53_numeral: "numeral n < (2 ^ 53 :: rat) \<Longrightarrow> round53 (numeral n) = numeral n"
  by (rule round53_pos_integer) simp_all

lemma round53_zero: "round53 0 = 0"
  by (simp add: round53_def)

lemma round53_one: "round53 1 = 1"
  by (rule round53_pos_integer) simp_all


lemma floor_numeral_div: "\<lfloor>numeral a / numeral b :: rat\<rfloor> = numeral a div numeral b"
  using floor_divide_of_int_eq [of "numeral a" "numeral b", where ?'a = rat] by simp

lemma round53_at_2_53:
  "round53 9007199254740992 = 9007199254740992
   \<and> round53 9007199254740993 = 9007199254740992
   \<and> round53 9007199254740994 = 9007199254740994"
  by (simp add: round53_def normalise.simps round_even_def floor_numeral_div)


text \<open>
  Claim C5, as the code has it. Where the revenue of every transaction with a date is
  an integer and the absolute revenues of these transactions add up to less than
  \<open>2^53\<close>, so that no product and no sum of doubles is rounded, the seven buckets add
  up to the revenue of the transactions that have a non-empty \<^verbatim>\<open>InvoiceDate\<close> which the
  host parses as a date; the other transactions reach no bucket.
\<close>

theorem day_buckets_sum_dated_revenue:
  assumes "exact_on_integers rnd"
    and "list_all (\<lambda>t. revenue t \<in> \<int>) (filter (dated getDay) ts)"
    and "sum_list (map (\<lambda>t. \<bar>revenue t\<bar>) (filter (dated getDay) ts)) < 2 ^ 53"
  shows "length (fetchDailyPattern rnd getDay ts) = 7
       \<and> sum_list (fetchDailyPattern rnd getDay ts)
           = sum_list (map revenue (filter (dated getDay) ts))"
  using foldl_add_day [OF assms(1), of "replicate 7 0" getDay ts] assms(2,3)
  by (simp add: fetchDailyPattern_def sum_list_replicate list_all_length)


theorem day_buckets_sum_dated_revenue_witness:
  "exact_on_integers round53
   \<and> list_all (\<lambda>t. revenue t \<in> \<int>) (filter (dated sample_getDay)
     [no_fields\<lparr>InvoiceDate := Val ''2010-12-01T08:26:00'', Quantity := Val 6, Price := Val (5 / 2)\<rparr>,
      no_fields\<lparr>InvoiceDate := Val ''2010-12-05T10:03:00'', Quantity := Val 2, Price := Val 4\<rparr>,
      no_fields\<lparr>InvoiceDate := Val ''last week'', Quantity := Val 1, Price := Val 7\<rparr>,
      no_fields\<lparr>InvoiceDate := Val ''2010-12-01T08:26:00'', Quantity := Val 1, Price := Null\<rparr>])
   \<and> sum_list (map (\<lambda>t. \<bar>revenue t\<bar>) (filter (dated sample_getDay)
     [no_fields\<lparr>InvoiceDate := Val ''2010-12-01T08:26:00'', Quantity := Val 6, Price := Val (5 / 2)\<rparr>,
      no_fields\<lparr>InvoiceDate := Val ''2010-12-05T10:03:00'', Quantity := Val 2, Price := Val 4\<rparr>,
      no_fields\<lparr>InvoiceDate := Val ''last week'', Quantity := Val 1, Price := Val 7\<rparr>,
      no_fields\<lparr>InvoiceDate := Val ''2010-12-01T08:26:00'', Quantity := Val 1, Price := Null\<rparr>])) < 2 ^ 53
   \<and> fetchDailyPattern round53 sample_getDay
     [no_fields\<lparr>InvoiceDate := Val ''2010-12-01T08:26:00'', Quantity := Val 6, Price := Val (5 / 2)\<rparr>,
      no_fields\<lparr>InvoiceDate := Val ''2010-12-05T10:03:00'', Quantity := Val 2, Price := Val 4\<rparr>,
      no_fields\<lparr>InvoiceDate := Val ''last week'', Quantity := Val 1, Price := Val 7\<rparr>,
      no_fields\<lparr>InvoiceDate := Val ''2010-12-01T08:26:00'', Quantity := Val 1, Price := Null\<rparr>]
     = [8, 0, 0, 15, 0, 0, 0]
   \<and> sum_list (map revenue (filter (dated sample_getDay)
     [no_fields\<lparr>InvoiceDate := Val ''2010-12-01T08:26:00'', Quantity := Val 6, Price := Val (5 / 2)\<rparr>,
      no_fields\<lparr>InvoiceDate := Val ''2010-12-05T10:03:00'', Quantity := Val 2, Price := Val 4\<rparr>,
      no_fields\<lparr>InvoiceDate := Val ''last week'', Quantity := Val 1, Price := Val 7\<rparr>,
      no_fields\<lparr>InvoiceDate := Val ''2010-12-01T08:26:00'', Quantity := Val 1, Price := Null\<rparr>])) = 23"
proof -
  let ?ts = "[no_fields\<lparr>InvoiceDate := Val ''2010-12-01T08:26:00'', Quantity := Val 6, Price := Val (5 / 2)\<rparr>,
      no_fields\<lparr>InvoiceDate := Val ''2010-12-05T10:03:00'', Quantity := Val 2, Price := Val 4\<rparr>,
      no_fields\<lparr>InvoiceDate := Val ''last week'', Quantity := Val 1, Price := Val 7\<rparr>,
      no_fields\<lparr>InvoiceDate := Val ''2010-12-01T08:26:00'', Quantity := Val 1, Price := Null\<rparr>]"
  have e: "exact_on_integers round53" by (rule round53_exact)
  have w: "list_all (\<lambda>t. revenue t \<in> \<int>) (filter (dated sample_getDay) ?ts)"
    by (simp add: dated_def sample_getDay_def revenue_def no_fields_def)
  have b: "sum_list (map (\<lambda>t. \<bar>revenue t\<bar>) (filter (dated sample_getDay) ?ts)) < 2 ^ 53"
    by (simp add: dated_def sample_getDay_def revenue_def no_fields_def)
  have v: "fetchDailyPattern round53 sample_getDay ?ts = [8, 0, 0, 15, 0, 0, 0]"
    by (simp add: fetchDailyPattern_def add_day_def sample_getDay_def revenue_def no_fields_def
          numeral_eq_Suc round53_numeral round53_zero)
  have "sum_list (fetchDailyPattern round53 sample_getDay ?ts)
          = sum_list (map revenue (filter (dated sample_getDay) ?ts))"
    using day_buckets_sum_dated_revenue [OF e w b] by (rule conjunct2)
  then have "sum_list (map revenue (filter (dated sample_getDay) ?ts)) = 23"
    by (simp only: v) simp
  then show ?thesis using e w b v by (intro conjI)
qed

text \<open>
  A transaction whose \<^verbatim>\<open>InvoiceDate\<close> is \<^verbatim>\<open>null\<close> and whose revenue is 6: every
  bucket stays 0, while the revenue of the list is 6. And four transactions with dates,
  of revenue \<open>2^53\<close>, 1, 1, 1 on two days: the sum \<open>2^53 + 1\<close> is rounded to \<open>2^53\<close>, the
  buckets add up to \<open>2^53 + 2\<close>, the revenue of the list is \<open>2^53 + 3\<close>, and added up in
  doubles in the order of the list it is \<open>2^53\<close>.
\<close>

theorem undated_or_rounded_revenue_is_lost:
  "fetchDailyPattern round53 sample_getDay
     [no_fields\<lparr>InvoiceDate := Null, Quantity := Val 2, Price := Val 3\<rparr>] = [0, 0, 0, 0, 0, 0, 0]
   \<and> sum_list (map revenue [no_fields\<lparr>InvoiceDate := Null, Quantity := Val 2, Price := Val 3\<rparr>]) = 6
   \<and> double_total round53 [no_fields\<lparr>InvoiceDate := Null, Quantity := Val 2, Price := Val 3\<rparr>] = 6
   \<and> fetchDailyPattern round53 sample_getDay
     [no_fields\<lparr>InvoiceDate := Val ''2010-12-01T08:26:00'', Quantity := Val 9007199254740992, Price := Val 1\<rparr>,
      no_fields\<lparr>InvoiceDate := Val ''2010-12-05T10:03:00'', Quantity := Val 1, Price := Val 1\<rparr>,
      no_fields\<lparr>InvoiceDate := Val ''2010-12-01T08:26:00'', Quantity := Val 1, Price := Val 1\<rparr>,
      no_fields\<lparr>InvoiceDate := Val ''2010-12-05T10:03:00'', Quantity := Val 1, Price := Val 1\<rparr>]
     = [2, 0, 0, 9007199254740992, 0, 0, 0]
   \<and> sum_list (fetchDailyPattern round53 sample_getDay
     [no_fields\<lparr>InvoiceDate := Val ''2010-12-01T08:26:00'', Quantity := Val 9007199254740992, Price := Val 1\<rparr>,
      no_fields\<lparr>InvoiceDate := Val ''2010-12-05T10:03:00'', Quantity := Val 1, Price := Val 1\<rparr>,
      no_fields\<lparr>InvoiceDate := Val ''2010-12-01T08:26:00'', Quantity := Val 1, Price := Val 1\<rparr>,
      no_fields\<lparr>InvoiceDate := Val ''2010-12-05T10:03:00'', Quantity := Val 1, Price := Val 1\<rparr>])
     = 9007199254740994
   \<and> sum_list (map revenue
     [no_fields\<lparr>InvoiceDate := Val ''2010-12-01T08:26:00'', Quantity := Val 9007199254740992, Price := Val 1\<rparr>,
      no_fields\<lparr>InvoiceDate := Val ''2010-12-05T10:03:00'', Quantity := Val 1, Price := Val 1\<rparr>,
      no_fields\<lparr>InvoiceDate := Val ''2010-12-01T08:26:00'', Quantity := Val 1, Price := Val 1\<rparr>,
      no_fields\<lparr>InvoiceDate := Val ''2010-12-05T10:03:00'', Quantity := Val 1, Price := Val 1\<rparr>])
     = 9007199254740995
   \<and> double_total round53
     [no_fields\<lparr>InvoiceDate := Val ''2010-12-01T08:26:00'', Quantity := Val 9007199254740992, Price := Val 1\<rparr>,
      no_fields\<lparr>InvoiceDate := Val ''2010-12-05T10:03:00'', Quantity := Val 1, Price := Val 1\<rparr>,
      no_fields\<lparr>InvoiceDate := Val ''2010-12-01T08:26:00'', Quantity := Val 1, Price := Val 1\<rparr>,
      no_fields\<lparr>InvoiceDate := Val ''2010-12-05T10:03:00'', Quantity := Val 1, Price := Val 1\<rparr>]
     = 9007199254740992"
  by (simp add: fetchDailyPattern_def add_day_def double_total_def sample_getDay_def revenue_def
        no_fields_def numeral_eq_Suc round53_numeral round53_one round53_zero round53_at_2_53)

subsection \<open>Revenue by category\<close>









subsection \<open>Cohort sizes\<close>

lemma set_set_add: "set (set_add x xs) = insert x (set xs)"
  by (auto simp: set_add_def)

lemma distinct_set_add: "distinct xs \<Longrightarrow> distinct (set_add x xs)"
  by (simp add: set_add_def)

lemma customers_in_Cons:
  "customers_in (t # ts) m
     = (if month_of t = Some m then {or_str (CustomerID t) []} else {}) \<union> customers_in ts m"
  by (auto simp: customers_in_def)

lemma add_cohort_skip: "month_of t = None \<Longrightarrow> add_cohort cohorts t = Inr cohorts"
  by (auto simp: add_cohort_def month_of_def split: if_splits)

lemma add_cohort_count:
  "month_of t = Some m \<Longrightarrow> \<not> inherited m \<Longrightarrow>
   add_cohort cohorts t
     = Inr (AList.update m (set_add (or_str (CustomerID t) []) (members cohorts m)) cohorts)"
  by (auto simp: add_cohort_def month_of_def members_def Let_def split: if_splits)

lemma forEach_add_cohort:
  assumes "list_all plain_month ts" and "distinct (map fst cohorts)"
    and "\<forall>m. distinct (members cohorts m)"
  shows "\<exists>cohorts'. forEach add_cohort cohorts ts = Inr cohorts'
           \<and> distinct (map fst cohorts')
           \<and> fst ` set cohorts' = fst ` set cohorts \<union> {m. \<exists>t\<in>set ts. month_of t = Some m}
           \<and> (\<forall>m. distinct (members cohorts' m))
           \<and> (\<forall>m. set (members cohorts' m) = set (members cohorts m) \<union> customers_in ts m)"
  using assms
proof (induction ts arbitrary: cohorts)
  case Nil
  then show ?case by (simp add: customers_in_def)
next
  case (Cons t ts)
  from Cons.prems have rest: "list_all plain_month ts" by simp
  show ?case
  proof (cases "month_of t")
    case None
    then have step: "add_cohort cohorts t = Inr cohorts" by (rule add_cohort_skip)
    from Cons.IH [OF rest Cons.prems(2,3)] obtain cohorts' where
      "forEach add_cohort cohorts ts = Inr cohorts'" "distinct (map fst cohorts')"
      "fst ` set cohorts' = fst ` set cohorts \<union> {m. \<exists>t\<in>set ts. month_of t = Some m}"
      "\<forall>m. distinct (members cohorts' m)"
      "\<forall>m. set (members cohorts' m) = set (members cohorts m) \<union> customers_in ts m"
      by blast
    then show ?thesis using None step
      by (auto simp: customers_in_Cons)
  next
    case (Some m)
    with Cons.prems have plain: "\<not> inherited m" by (simp add: plain_month_def)
    let ?c = "or_str (CustomerID t) []"
    let ?cohorts1 = "AList.update m (set_add ?c (members cohorts m)) cohorts"
    have step: "add_cohort cohorts t = Inr ?cohorts1"
      using Some plain by (rule add_cohort_count)
    have d1: "distinct (map fst ?cohorts1)"
      using Cons.prems(2) by (simp add: distinct_update)
    have k1: "fst ` set ?cohorts1 = insert m (fst ` set cohorts)"
      by (simp add: update_conv' flip: dom_map_of_conv_image_fst)
    have m1: "\<And>m'. members ?cohorts1 m'
                = (if m' = m then set_add ?c (members cohorts m) else members cohorts m')"
      by (simp add: members_def update_conv')
    have dm1: "\<forall>m'. distinct (members ?cohorts1 m')"
      using Cons.prems(3) by (simp add: m1 distinct_set_add)
    from Cons.IH [OF rest d1 dm1] obtain cohorts' where r:
      "forEach add_cohort ?cohorts1 ts = Inr cohorts'" "distinct (map fst cohorts')"
      "fst ` set cohorts' = fst ` set ?cohorts1 \<union> {m. \<exists>t\<in>set ts. month_of t = Some m}"
      "\<forall>m. distinct (members cohorts' m)"
      "\<forall>m'. set (members cohorts' m') = set (members ?cohorts1 m') \<union> customers_in ts m'"
      by blast
    have "forEach add_cohort cohorts (t # ts) = Inr cohorts'"
      using step r(1) by simp
    moreover have "fst ` set cohorts'
        = fst ` set cohorts \<union> {m. \<exists>t\<in>set (t # ts). month_of t = Some m}"
      using r(3) k1 Some by auto
    moreover have "\<forall>m'. set (members cohorts' m')
        = set (members cohorts m') \<union> customers_in (t # ts) m'"
      using r(5) Some by (auto simp: m1 set_set_add customers_in_Cons)
    ultimately show ?thesis using r(2,4) by blast
  qed
qed

text \<open>
  Claim C4, as the code has it. When no month is an inherited name, the cohort chart
  shows the first twelve months in ascending order of the month string (calendar order
  for \<^verbatim>\<open>YYYY-MM\<close>), each with the number of distinct customers that have a transaction
  in it; a month is the first seven characters of \<^verbatim>\<open>InvoiceDate\<close>, and transactions
  without a date or a customer are left out.
\<close>

theorem cohort_months_in_calendar_order:
  assumes "list_all plain_month ts"
  shows "renderCohortChart ts
           = Inr (take 12 (sorted_list_of_set {m. \<exists>t\<in>set ts. month_of t = Some m}),
                  map (\<lambda>m. card (customers_in ts m))
                    (take 12 (sorted_list_of_set {m. \<exists>t\<in>set ts. month_of t = Some m})))"
proof -
  let ?M = "{m. \<exists>t\<in>set ts. month_of t = Some m}"
  from forEach_add_cohort [OF assms, of "[]"] obtain cohorts where c:
    "forEach add_cohort [] ts = Inr cohorts" "distinct (map fst cohorts)"
    "fst ` set cohorts = ?M"
    "\<forall>m. distinct (members cohorts m)"
    "\<forall>m. set (members cohorts m) = customers_in ts m"
    by (auto simp: members_def)
  have "sorted_list_of_set (set (keys cohorts)) = sort (remdups (keys cohorts))"
    by (rule sorted_list_of_set_sort_remdups)
  then have months: "sort (keys cohorts) = sorted_list_of_set ?M"
    using distinct_keys [OF c(2)] c(3) by (simp add: set_keys distinct_remdups_id)
  have size: "\<And>m. (case map_of cohorts m of None \<Rightarrow> 0 | Some ms \<Rightarrow> length ms)
                = card (customers_in ts m)"
  proof -
    fix m
    have "(case map_of cohorts m of None \<Rightarrow> 0 | Some ms \<Rightarrow> length ms) = length (members cohorts m)"
      by (simp add: members_def split: option.splits)
    also have "\<dots> = card (set (members cohorts m))"
      using c(4) by (simp add: distinct_card)
    finally show "(case map_of cohorts m of None \<Rightarrow> 0 | Some ms \<Rightarrow> length ms)
                = card (customers_in ts m)"
      using c(5) by simp
  qed
  show ?thesis
    using c(1) by (simp add: renderCohortChart_def months size Let_def)
qed

theorem cohort_months_in_calendar_order_witness:
  "list_all plain_month
     [no_fields\<lparr>InvoiceDate := Val ''2011-02-11T09:00:00'', CustomerID := Val ''13047''\<rparr>,
      no_fields\<lparr>InvoiceDate := Val ''2011-01-04T10:00:00'', CustomerID := Val ''17850''\<rparr>,
      no_fields\<lparr>InvoiceDate := Val ''2011-01-09T12:30:00'', CustomerID := Val ''13047''\<rparr>,
      no_fields\<lparr>InvoiceDate := Val ''2011-01-20T16:45:00'', CustomerID := Val ''17850''\<rparr>,
      no_fields\<lparr>InvoiceDate := Val ''2011-01-21T16:45:00'', CustomerID := Null\<rparr>]
   \<and> renderCohortChart
     [no_fields\<lparr>InvoiceDate := Val ''2011-02-11T09:00:00'', CustomerID := Val ''13047''\<rparr>,
      no_fields\<lparr>InvoiceDate := Val ''2011-01-04T10:00:00'', CustomerID := Val ''17850''\<rparr>,
      no_fields\<lparr>InvoiceDate := Val ''2011-01-09T12:30:00'', CustomerID := Val ''13047''\<rparr>,
      no_fields\<lparr>InvoiceDate := Val ''2011-01-20T16:45:00'', CustomerID := Val ''17850''\<rparr>,
      no_fields\<lparr>InvoiceDate := Val ''2011-01-21T16:45:00'', CustomerID := Null\<rparr>]
     = Inr ([''2011-01'', ''2011-02''], [2, 1])"
  using cohort_months_in_calendar_order [of
     "[no_fields\<lparr>InvoiceDate := Val ''2011-02-11T09:00:00'', CustomerID := Val ''13047''\<rparr>,
      no_fields\<lparr>InvoiceDate := Val ''2011-01-04T10:00:00'', CustomerID := Val ''17850''\<rparr>,
      no_fields\<lparr>InvoiceDate := Val ''2011-01-09T12:30:00'', CustomerID := Val ''13047''\<rparr>,
      no_fields\<lparr>InvoiceDate := Val ''2011-01-20T16:45:00'', CustomerID := Val ''17850''\<rparr>,
      no_fields\<lparr>InvoiceDate := Val ''2011-01-21T16:45:00'', CustomerID := Null\<rparr>]"]
  by (simp (no_asm) add: renderCohortChart_def add_cohort_def plain_month_def month_of_def set_add_def
        inherited_def no_fields_def object_order)

text \<open>
  Two customers in December 2010 and one in January 2011: the months come out in
  calendar order, and their sizes 2, 1 are not ascending.
\<close>

theorem cohort_sizes_not_ascending:
  "renderCohortChart
     [no_fields\<lparr>InvoiceDate := Val ''2010-12-01T08:26:00'', CustomerID := Val ''17850''\<rparr>,
      no_fields\<lparr>InvoiceDate := Val ''2010-12-05T10:03:00'', CustomerID := Val ''13047''\<rparr>,
      no_fields\<lparr>InvoiceDate := Val ''2011-01-04T10:00:00'', CustomerID := Val ''17850''\<rparr>]
     = Inr ([''2010-12'', ''2011-01''], [2, 1])
   \<and> \<not> sorted [2, 1 :: nat]"
  by (simp add: renderCohortChart_def add_cohort_def set_add_def inherited_def no_fields_def
        object_order)

subsection \<open>Product associations\<close>

text \<open>
  Claim C1. One invoice with the items \<open>A\<close>, \<open>B\<close>, \<open>C\<close>: the nested loops visit each
  unordered pair in both orders, and both visits add to the same sorted key, so every
  pair is counted twice.
\<close>

theorem association_counts_each_pair_twice:
  "renderAssociationChart
     [line_item ''536365'' ''A'', line_item ''536365'' ''B'', line_item ''536365'' ''C'']
   = Inr [(''A|B'', 2), (''A|C'', 2), (''B|C'', 2)]"
  by (simp add: renderAssociationChart_def add_invoice_def count_items_def count_pair_def
        pair_key_def sort_pair_def sort_by_def inherited_def line_item_def object_order)

subsection \<open>Linear forecast\<close>

text \<open>
  Claim C2. For the monthly revenues 100, 150, 200 the growth per month is computed as
  \<open>(200 - 100) / 3\<close>, the difference of the last and the first of the three points
  divided by the number of points, and the first forecast is \<open>700 / 3\<close>, not 250.
\<close>

theorem forecast_divides_by_three:
  "avgGrowth [\<lparr>year_month = ''2011-08'', Revenue = 100\<rparr>, \<lparr>year_month = ''2011-09'', Revenue = 150\<rparr>,
              \<lparr>year_month = ''2011-10'', Revenue = 200\<rparr>] = 100 / 3
   \<and> renderForecastChart sample_month_after
       [\<lparr>year_month = ''2011-08'', Revenue = 100\<rparr>, \<lparr>year_month = ''2011-09'', Revenue = 150\<rparr>,
        \<lparr>year_month = ''2011-10'', Revenue = 200\<rparr>]
     = Inr (Forecast [\<lparr>year_month = ''2011-11'', Revenue = 700 / 3\<rparr>,
                      \<lparr>year_month = ''2011-12'', Revenue = 800 / 3\<rparr>,
                      \<lparr>year_month = ''2012-01'', Revenue = 300\<rparr>])
   \<and> (700 / 3 :: rat) \<noteq> 250"
  by (simp add: renderForecastChart_def avgGrowth_def js_slice_def forecast_step_def
        sample_month_after_def)

subsection \<open>Pagination\<close>

lemma total_pages_div: "total_pages n = (int n + 49) div 50"
proof -
  have "total_pages n = \<lceil>rat_of_int (int n) / rat_of_int 50\<rceil>"
    by (simp add: total_pages_def pageSize_def)
  also have "\<dots> = - (- int n div 50)"
    by (rule ceiling_divide_eq_div)
  also have "\<dots> = (int n + 49) div 50"
    by linarith
  finally show ?thesis .
qed

lemma js_slice_first_page: "js_slice xs 0 50 = take 50 xs"
  by (auto simp: js_slice_def Let_def min_def)

text \<open>
  What holds of the table and of \<open>changePage\<close>: the row of an empty list, the number of
  pages, the first page, and that a page inside \<open>1 \<dots> \<lceil>N / 50\<rceil>\<close> stays inside, \<open>N\<close> being
  the length of \<^verbatim>\<open>currentTransactions\<close>.
\<close>

lemma pagination_pages:
  "transactionTable (renderTransactionsTable [] s) = NoTransactionsFound
   \<and> (ts \<noteq> [] \<longrightarrow>
        map_option page_count (pagination (renderTransactionsTable ts s))
          = Some \<lceil>rat_of_nat (length ts) / 50\<rceil>)
   \<and> (ts \<noteq> [] \<and> currentPage s = 1 \<longrightarrow>
        transactionTable (renderTransactionsTable ts s) = Rows (take 50 ts))
   \<and> (1 \<le> currentPage s \<and> currentPage s \<le> \<lceil>rat_of_nat (length (currentTransactions s)) / 50\<rceil> \<longrightarrow>
        1 \<le> currentPage (changePage page s)
        \<and> currentPage (changePage page s) \<le> \<lceil>rat_of_nat (length (currentTransactions s)) / 50\<rceil>
        \<and> currentTransactions (changePage page s) = currentTransactions s)"
proof -
  have a: "transactionTable (renderTransactionsTable [] s) = NoTransactionsFound"
    by (simp add: renderTransactionsTable_def)
  have b: "ts \<noteq> [] \<longrightarrow>
        map_option page_count (pagination (renderTransactionsTable ts s))
          = Some \<lceil>rat_of_nat (length ts) / 50\<rceil>"
    by (simp add: renderTransactionsTable_def renderPagination_def total_pages_def pageSize_def Let_def)
  have c: "ts \<noteq> [] \<and> currentPage s = 1 \<longrightarrow>
        transactionTable (renderTransactionsTable ts s) = Rows (take 50 ts)"
    by (simp add: renderTransactionsTable_def renderPagination_def pageSize_def Let_def
          js_slice_first_page)
  have frame: "\<And>xs u. currentPage (renderTransactionsTable xs u) = currentPage u
                 \<and> currentTransactions (renderTransactionsTable xs u) = currentTransactions u"
    by (simp add: renderTransactionsTable_def renderPagination_def Let_def)
  have d: "1 \<le> currentPage s \<and> currentPage s \<le> \<lceil>rat_of_nat (length (currentTransactions s)) / 50\<rceil> \<longrightarrow>
        1 \<le> currentPage (changePage page s)
        \<and> currentPage (changePage page s) \<le> \<lceil>rat_of_nat (length (currentTransactions s)) / 50\<rceil>
        \<and> currentTransactions (changePage page s) = currentTransactions s"
    by (simp add: changePage_def frame total_pages_def pageSize_def Let_def)
  show ?thesis using a b c d by blast
qed

lemma pagination_pages_example:
  "replicate 120 no_fields \<noteq> [] \<and> currentPage hundred_twenty = 1
   \<and> map_option page_count (pagination (renderTransactionsTable (replicate 120 no_fields) hundred_twenty)) = Some 3
   \<and> transactionTable (renderTransactionsTable (replicate 120 no_fields) hundred_twenty)
       = Rows (replicate 50 no_fields)
   \<and> currentPage (changePage 3 hundred_twenty) = 3
   \<and> currentPage (changePage 4 hundred_twenty) = 1
   \<and> currentPage (changePage 0 hundred_twenty) = 1"
  by (simp add: hundred_twenty_def changePage_def renderTransactionsTable_def renderPagination_def
        total_pages_div js_slice_first_page pageSize_def Let_def)

text \<open>
  Claim C7. After a call of \<open>changePage\<close> the current page can lie outside
  \<open>1 \<dots> \<lceil>N / 50\<rceil>\<close>. The range that \<open>changePage\<close> tests is that of the list at the time
  of the call, and \<open>fetchTransactionsList\<close> does not reset the page when the backend
  answers a shorter list: from page 3 of 120 records, reached by two steps from page
  1, an answer of 10 records leaves page 3 of 1 with no row, and both calls that the buttons of the pagination bar make,
  \<open>changePage 2\<close> and \<open>changePage 4\<close>, leave the page at 3.
\<close>

theorem page_is_not_reset_by_a_shorter_list:
  "currentPage (changePage 3 (changePage 2 hundred_twenty)) = 3
   \<and> currentPage shorter_answer = 3
   \<and> currentTransactions shorter_answer = replicate 10 no_fields
   \<and> transactionTable shorter_answer = Rows []
   \<and> map_option page_count (pagination shorter_answer) = Some 1
   \<and> total_pages (length (currentTransactions shorter_answer)) = 1
   \<and> currentPage (changePage 2 shorter_answer) = 3
   \<and> currentPage (changePage 4 shorter_answer) = 3"
proof -
  have before: "currentPage (changePage 3 (changePage 2 hundred_twenty)) = 3"
    by (simp add: hundred_twenty_def changePage_def renderTransactionsTable_def
          renderPagination_def total_pages_div Let_def)
  have frame: "\<And>xs u. currentPage (renderTransactionsTable xs u) = currentPage u
                 \<and> currentTransactions (renderTransactionsTable xs u) = currentTransactions u"
    by (simp add: renderTransactionsTable_def renderPagination_def Let_def)
  have page: "currentPage shorter_answer = 3"
    using before by (simp add: shorter_answer_def fetchTransactionsList_def frame)
  have list: "currentTransactions shorter_answer = replicate 10 no_fields"
    by (simp add: shorter_answer_def fetchTransactionsList_def frame)
  have pages: "total_pages (length (currentTransactions shorter_answer)) = 1"
    by (simp add: list total_pages_div)
  have shown: "transactionTable shorter_answer = Rows []
      \<and> map_option page_count (pagination shorter_answer) = Some 1"
    using before
    by (simp add: shorter_answer_def fetchTransactionsList_def renderTransactionsTable_def
          renderPagination_def total_pages_div js_slice_def pageSize_def Let_def)
  have stuck: "currentPage (changePage 2 shorter_answer) = 3
      \<and> currentPage (changePage 4 shorter_answer) = 3"
    using page pages by (simp add: changePage_def Let_def)
  show ?thesis using before page list pages shown stuck by simp
qed

subsection \<open>The modal form\<close>

text \<open>The edit path, for a record whose date, if it has one, the host reads as a date.\<close>

lemma prefill_ok:
  assumes "truthy (InvoiceDate t) \<longrightarrow> iso_minutes h (or_str (InvoiceDate t) []) = Some d"
  shows "prefill h t f =
     (f\<lparr>formInvoice := or_str (Invoice t) [],
        formStockCode := or_str (StockCode t) [],
        formDescription := or_str (Description t) [],
        formQuantity := number_text h (or_num (Quantity t) 1),
        formPrice := number_text h (or_num (Price t) 0),
        formCustomerID := or_str (CustomerID t) [],
        formCountry := or_str (Country t) [],
        formInvoiceDate := (if truthy (InvoiceDate t) then d else formInvoiceDate f)\<rparr>, None)"
  using assms by (simp add: prefill_def Let_def)

lemma openTransactionModal_edit:
  assumes "ident \<noteq> []" and "find (same_id (Id ident)) (currentTransactions s) = Some t"
    and "truthy (InvoiceDate t) \<longrightarrow> iso_minutes h (or_str (InvoiceDate t) []) = Some d"
  shows "openTransactionModal h (Id ident) s
          = (s\<lparr>editingTransactionId := Id ident, modalTitle := ''Edit Transaction'',
                transactionForm := (transactionForm s)
                  \<lparr>formInvoice := or_str (Invoice t) [],
                   formStockCode := or_str (StockCode t) [],
                   formDescription := or_str (Description t) [],
                   formQuantity := number_text h (or_num (Quantity t) 1),
                   formPrice := number_text h (or_num (Price t) 0),
                   formCustomerID := or_str (CustomerID t) [],
                   formCountry := or_str (Country t) [],
                   formInvoiceDate :=
                     (if truthy (InvoiceDate t) then d else formInvoiceDate (transactionForm s))\<rparr>,
                modalActive := True\<rparr>, None)"
  using assms(1,2) by (simp add: openTransactionModal_def Let_def prefill_ok [OF assms(3)])

text \<open>
  A record whose date the host does not read as a date: \<^verbatim>\<open>toISOString\<close> throws after
  the editing id, the title and the seven other fields are written; the modal is not
  shown and the date field keeps its content.
\<close>

lemma openTransactionModal_bad_date:
  assumes "ident \<noteq> []" and "find (same_id (Id ident)) (currentTransactions s) = Some t"
    and "truthy (InvoiceDate t)" and "iso_minutes h (or_str (InvoiceDate t) []) = None"
  shows "openTransactionModal h (Id ident) s
          = (s\<lparr>editingTransactionId := Id ident, modalTitle := ''Edit Transaction'',
                transactionForm := (transactionForm s)
                  \<lparr>formInvoice := or_str (Invoice t) [],
                   formStockCode := or_str (StockCode t) [],
                   formDescription := or_str (Description t) [],
                   formQuantity := number_text h (or_num (Quantity t) 1),
                   formPrice := number_text h (or_num (Price t) 0),
                   formCustomerID := or_str (CustomerID t) [],
                   formCountry := or_str (Country t) []\<rparr>\<rparr>, Some RangeError)"
  using assms by (simp add: openTransactionModal_def prefill_def Let_def)

text \<open>The request, by the editing id.\<close>

lemma submit_without_id:
  "editingTransactionId s = NoId \<Longrightarrow>
   handleTransactionSubmit h s
     = \<lparr>req_method = POST, url = API_BASE h @ ''/transactions'',
        body = payload_of h (transactionForm s)\<rparr>"
  by (simp add: handleTransactionSubmit_def Let_def)

lemma submit_with_id:
  "editingTransactionId s = Id ident \<Longrightarrow> ident \<noteq> [] \<Longrightarrow>
   handleTransactionSubmit h s
     = \<lparr>req_method = PUT, url = API_BASE h @ ''/transactions/'' @ ident,
        body = payload_of h (transactionForm s)\<rparr>"
  by (simp add: handleTransactionSubmit_def Let_def)

lemma find_click_event: "find (same_id ClickEvent) xs = None"
  by (induction xs) simp_all

text \<open>
  Claim C9. The add button hands its click event to \<open>openTransactionModal\<close>. The event is
  truthy and is the \<^verbatim>\<open>_id\<close> of no record: it becomes the editing id, the title reads
  \<^verbatim>\<open>Edit Transaction\<close>, the form keeps its previous content instead of being reset, and
  submitting sends a \<^verbatim>\<open>PUT\<close> to \<^verbatim>\<open>/transactions/\<close> followed by the text of the event, not
  a \<^verbatim>\<open>POST\<close> to \<^verbatim>\<open>/transactions\<close>. So for every host and every state; in the sample state
  the address ends in \<^verbatim>\<open>[object PointerEvent]\<close>.
\<close>

theorem add_button_submits_an_update:
  "openTransactionModal h ClickEvent s
     = (s\<lparr>editingTransactionId := ClickEvent, modalTitle := ''Edit Transaction'',
           modalActive := True\<rparr>, None)
   \<and> handleTransactionSubmit h (fst (openTransactionModal h ClickEvent s))
     = \<lparr>req_method = PUT, url = API_BASE h @ ''/transactions/'' @ event_text h,
        body = payload_of h (transactionForm s)\<rparr>
   \<and> req_method (handleTransactionSubmit sample_host
         (fst (openTransactionModal sample_host ClickEvent sample_app))) = PUT
   \<and> url (handleTransactionSubmit sample_host
         (fst (openTransactionModal sample_host ClickEvent sample_app)))
     = ''http://localhost:5000/api/transactions/[object PointerEvent]''
   \<and> transactionForm (fst (openTransactionModal sample_host ClickEvent sample_app))
     = transactionForm sample_app"
proof -
  have o: "\<And>h s. openTransactionModal h ClickEvent s
     = (s\<lparr>editingTransactionId := ClickEvent, modalTitle := ''Edit Transaction'',
           modalActive := True\<rparr>, None)"
    by (simp add: openTransactionModal_def find_click_event Let_def)
  have p: "\<And>h s. handleTransactionSubmit h (fst (openTransactionModal h ClickEvent s))
     = \<lparr>req_method = PUT, url = API_BASE h @ ''/transactions/'' @ event_text h,
        body = payload_of h (transactionForm s)\<rparr>"
    by (simp add: o handleTransactionSubmit_def Let_def)
  have q: "API_BASE sample_host @ ''/transactions/'' @ event_text sample_host
     = ''http://localhost:5000/api/transactions/[object PointerEvent]''"
    by (simp add: sample_host_def)
  show ?thesis using o p q by simp
qed

subsection \<open>The product table\<close>

lemma renderProductsTable_frame:
  "store (renderProductsTable ps s) = store s
   \<and> currentProducts (renderProductsTable ps s) = currentProducts s"
  by (simp add: renderProductsTable_def)

lemma filterProducts_frame:
  "currentProducts (filterProducts q s) = currentProducts s
   \<and> (\<exists>new. store (filterProducts q s) = store s @ new)"
  by (simp add: filterProducts_def renderProductsTable_frame Let_def)

lemma sort_in_place_fresh:
  "store (sort_in_place (length st) cmp (s\<lparr>store := st @ [xs]\<rparr>)) = st @ [sort_by cmp xs]
   \<and> currentProducts (sort_in_place (length st) cmp (s\<lparr>store := st @ [xs]\<rparr>)) = currentProducts s"
  by (simp add: sort_in_place_def deref_def)

lemma sortProducts_frame:
  "currentProducts (sortProducts lc k s) = currentProducts s
   \<and> (\<exists>new. store (sortProducts lc k s) = store s @ new)"
  by (simp add: sortProducts_def renderProductsTable_frame sort_in_place_fresh Let_def)

lemma handle_frame:
  "currentProducts (handle lc s e) = currentProducts s
   \<and> (\<exists>new. store (handle lc s e) = store s @ new)"
  by (cases e) (simp_all add: filterProducts_frame sortProducts_frame)

lemma events_frame:
  "currentProducts (foldl (handle lc) s events) = currentProducts s
   \<and> (\<exists>new. store (foldl (handle lc) s events) = store s @ new)"
proof (induction events arbitrary: s)
  case Nil
  then show ?case by simp
next
  case (Cons e events)
  obtain new1 where 1: "currentProducts (handle lc s e) = currentProducts s"
      "store (handle lc s e) = store s @ new1"
    using handle_frame [of lc s e] by blast
  obtain new2 where 2:
      "currentProducts (foldl (handle lc) (handle lc s e) events) = currentProducts (handle lc s e)"
      "store (foldl (handle lc) (handle lc s e) events) = store (handle lc s e) @ new2"
    using Cons.IH [of "handle lc s e"] by blast
  from 1 2 show ?case by simp
qed

lemma deref_append: "a < length st \<Longrightarrow> deref (st @ new) a = deref st a"
  by (simp add: deref_def nth_append)

lemma filterProducts_blank:
  "productTable (filterProducts [] s)
     = (if deref (store s) (currentProducts s) = [] then NoProductsFound
        else ProductRows (deref (store s) (currentProducts s)))"
  by (simp add: filterProducts_def renderProductsTable_def trim_def toLowerCase_def)

text \<open>
  Claim C10. \<^verbatim>\<open>currentProducts\<close> refers to an array of the store. After any sequence of
  searches and sorts it refers to the same array, the array holds the same products in
  the same order (a sort rearranges a fresh copy, a search builds a fresh array), and
  an empty search query then renders exactly that list.
\<close>

theorem search_and_sort_keep_products:
  assumes "currentProducts s < length (store s)"
  shows "currentProducts (foldl (handle localeCompare) s events) = currentProducts s
       \<and> deref (store (foldl (handle localeCompare) s events)) (currentProducts s)
           = deref (store s) (currentProducts s)
       \<and> productTable (filterProducts [] (foldl (handle localeCompare) s events))
           = (if deref (store s) (currentProducts s) = [] then NoProductsFound
              else ProductRows (deref (store s) (currentProducts s)))"
proof -
  obtain new where f: "currentProducts (foldl (handle localeCompare) s events) = currentProducts s"
      "store (foldl (handle localeCompare) s events) = store s @ new"
    using events_frame [of localeCompare s events] by blast
  have d: "deref (store (foldl (handle localeCompare) s events)) (currentProducts s)
            = deref (store s) (currentProducts s)"
    using f(2) assms by (simp add: deref_append)
  show ?thesis
    using f(1) d by (simp add: filterProducts_blank)
qed

theorem search_and_sort_keep_products_witness:
  "currentProducts sample_catalog < length (store sample_catalog)
   \<and> productTable (sortProducts sample_localeCompare ''revenue'' sample_catalog)
       = ProductRows [store sample_catalog ! 0 ! 2, store sample_catalog ! 0 ! 0, store sample_catalog ! 0 ! 1]
   \<and> productTable (filterProducts ''Lantern '' sample_catalog) = ProductRows [store sample_catalog ! 0 ! 0]
   \<and> deref (store (foldl (handle sample_localeCompare) sample_catalog
                [SortBy ''revenue'', Search ''Lantern '', SortBy ''code'']))
        (currentProducts sample_catalog)
       = store sample_catalog ! 0
   \<and> productTable (filterProducts [] (foldl (handle sample_localeCompare) sample_catalog
                [SortBy ''revenue'', Search ''Lantern '', SortBy ''code'']))
       = ProductRows (store sample_catalog ! 0)"
  using search_and_sort_keep_products [of sample_catalog sample_localeCompare
      "[SortBy ''revenue'', Search ''Lantern '', SortBy ''code'']"]
  by (simp (no_asm) add: sample_catalog_def sample_localeCompare_def sortProducts_def filterProducts_def
        sort_in_place_def renderProductsTable_def deref_def matches_def trim_def toLowerCase_def
        is_space_def sort_by_def Let_def)

end
